theory Spec2Isabelle
  imports Main "HOL-Library.AList" "HOL-Library.Char_ord" "HOL-Library.List_Lexorder"
begin

section \<open>The status document\<close>

text \<open>
  The bot edits the document \<^verbatim>\<open>status.json\<close>: a list of service objects, each with the
  string fields \<^verbatim>\<open>status\<close>, \<^verbatim>\<open>affectedServices\<close>, \<^verbatim>\<open>summary\<close>, \<^verbatim>\<open>date\<close> and a list
  \<^verbatim>\<open>updates\<close> of objects with \<^verbatim>\<open>date\<close>, \<^verbatim>\<open>details\<close> and an optional \<^verbatim>\<open>url\<close>. These are the
  keys the submission handlers write (\<^verbatim>\<open>updated_service\<close>, \<^verbatim>\<open>new_service\<close>, \<^verbatim>\<open>update\<close>,
  \<^verbatim>\<open>new_update\<close>), so a Python dict of that shape is a record here.

  A Python \<^verbatim>\<open>str\<close> is a \<^typ>\<open>string\<close> whose characters are read as code points below 256.
  The key \<^verbatim>\<open>url\<close> may be missing from an update (\<^const>\<open>None\<close>). The value of \<^verbatim>\<open>details\<close> is
  whatever the form delivered, which may be Python's \<^verbatim>\<open>None\<close> (\<^const>\<open>None\<close> here, \<^verbatim>\<open>null\<close> in
  JSON): the handlers store it unchecked.
\<close>

record update_entry =
  upd_date :: string
  upd_details :: "string option"
  upd_url :: "string option"

record service =
  status :: string
  affectedServices :: string
  summary :: string
  date :: string
  updates :: "update_entry list"


section \<open>\<^verbatim>\<open>json.dumps(..., sort_keys=True)\<close>\<close>

text \<open>
  \<^verbatim>\<open>has_changes\<close> compares the two documents through their serialisation with sorted keys
  and the default separators \<^verbatim>\<open>", "\<close> and \<^verbatim>\<open>": "\<close>. Strings are escaped as the encoder
  does with \<^verbatim>\<open>ensure_ascii\<close>: the quote and the backslash get a backslash, the five control
  characters with a short form get it, every other character outside \<^verbatim>\<open>' '..'~'\<close> becomes
  \<^verbatim>\<open>\u00xx\<close> in lower-case hexadecimal, and the rest is copied.
\<close>

definition dquote :: char where
  "dquote = CHR 0x22"

definition backslash :: char where
  "backslash = CHR 0x5C"

definition hex_digit :: "nat \<Rightarrow> char" where
  "hex_digit n = (if n < 10 then char_of (48 + n) else char_of (87 + n))"

definition escape_char :: "char \<Rightarrow> string" where
  "escape_char c =
     (if c = dquote then [backslash, dquote]
      else if c = backslash then [backslash, backslash]
      else if c = CHR 0x08 then [backslash, CHR ''b'']
      else if c = CHR 0x0C then [backslash, CHR ''f'']
      else if c = CHR 0x0A then [backslash, CHR ''n'']
      else if c = CHR 0x0D then [backslash, CHR ''r'']
      else if c = CHR 0x09 then [backslash, CHR ''t'']
      else if 32 \<le> (of_char c :: nat) \<and> (of_char c :: nat) \<le> 126 then [c]
      else [backslash, CHR ''u'', CHR ''0'', CHR ''0'',
            hex_digit ((of_char c :: nat) div 16), hex_digit ((of_char c :: nat) mod 16)])"

definition json_string :: "string \<Rightarrow> string" where
  "json_string s = dquote # concat (map escape_char s) @ [dquote]"

definition json_optional_string :: "string option \<Rightarrow> string" where
  "json_optional_string v = (case v of None \<Rightarrow> ''null'' | Some s \<Rightarrow> json_string s)"

definition json_key :: "string \<Rightarrow> string" where
  "json_key k = json_string k @ '': ''"

fun json_items :: "('a \<Rightarrow> string) \<Rightarrow> 'a list \<Rightarrow> string" where
  "json_items f [] = []"
| "json_items f [x] = f x"
| "json_items f (x # y # ys) = f x @ '', '' @ json_items f (y # ys)"

definition json_list :: "('a \<Rightarrow> string) \<Rightarrow> 'a list \<Rightarrow> string" where
  "json_list f xs = CHR ''['' # json_items f xs @ '']''"

definition dumps_update :: "update_entry \<Rightarrow> string" where
  "dumps_update u =
     CHR ''{'' # json_key ''date'' @ json_string (upd_date u) @ '', ''
       @ json_key ''details'' @ json_optional_string (upd_details u)
       @ (case upd_url u of None \<Rightarrow> [] | Some x \<Rightarrow> '', '' @ json_key ''url'' @ json_string x)
       @ ''}''"

definition dumps_service :: "service \<Rightarrow> string" where
  "dumps_service r =
     CHR ''{'' # json_key ''affectedServices'' @ json_string (affectedServices r) @ '', ''
       @ json_key ''date'' @ json_string (date r) @ '', ''
       @ json_key ''status'' @ json_string (status r) @ '', ''
       @ json_key ''summary'' @ json_string (summary r) @ '', ''
       @ json_key ''updates'' @ json_list dumps_update (updates r)
       @ ''}''"

definition json_dumps :: "service list \<Rightarrow> string" where
  "json_dumps xs = json_list dumps_service xs"


section \<open>The process state\<close>

text \<open>
  The module keeps four globals. \<^verbatim>\<open>global_statuses\<close> and \<^verbatim>\<open>original_statuses\<close> are
  \<^verbatim>\<open>None\<close> or a reference to a list object; the handlers change the list behind
  \<^verbatim>\<open>global_statuses\<close> in place (\<^verbatim>\<open>pop\<close>, \<^verbatim>\<open>append\<close>, item assignment), so the list objects
  live in a store and the two globals hold addresses. The dicts inside the lists are never
  changed in place (a working copy is made with \<^verbatim>\<open>service.copy()\<close> and a fresh list of
  copied updates), so they are values. \<^verbatim>\<open>working_copies\<close> is a dict from a service index
  (or \<open>-1\<close> for a service being created) to the working copy.
\<close>

type_synonym addr = nat

record state =
  heap :: "addr \<Rightarrow> service list"
  next_addr :: addr
  global_statuses :: "addr option"
  original_statuses :: "addr option"
  has_unsaved_changes :: bool
  working_copies :: "int \<rightharpoonup> service"

definition initial_state :: state where
  "initial_state =
     \<lparr>heap = (\<lambda>_. []), next_addr = 0, global_statuses = None, original_statuses = None,
      has_unsaved_changes = False, working_copies = Map.empty\<rparr>"

text \<open>The list behind \<^verbatim>\<open>global_statuses\<close> and the one behind \<^verbatim>\<open>original_statuses\<close>.\<close>

definition canonical :: "state \<Rightarrow> service list option" where
  "canonical s = map_option (heap s) (global_statuses s)"

definition baseline :: "state \<Rightarrow> service list option" where
  "baseline s = map_option (heap s) (original_statuses s)"

text \<open>
  The two globals never refer to the same list object, and the objects they refer to have
  been allocated.
\<close>

definition separate :: "state \<Rightarrow> bool" where
  "separate s =
     ((case (global_statuses s, original_statuses s) of
         (Some a, Some b) \<Rightarrow> a \<noteq> b
       | _ \<Rightarrow> True)
      \<and> (case global_statuses s of Some a \<Rightarrow> a < next_addr s | None \<Rightarrow> True)
      \<and> (case original_statuses s of Some b \<Rightarrow> b < next_addr s | None \<Rightarrow> True))"

datatype py_exn = TypeError | KeyError | IndexError | ValueError | AttributeError


subsection \<open>\<^verbatim>\<open>load_status_data\<close>\<close>

text \<open>
  The outcome of the HTTP request is an input of the model: either the decoded document, or
  a \<^verbatim>\<open>requests.RequestException\<close> raised by \<^verbatim>\<open>get\<close>, \<^verbatim>\<open>raise_for_status\<close> or \<^verbatim>\<open>json\<close>.
  On success \<^verbatim>\<open>response.json()\<close> builds a new list object and \<^verbatim>\<open>copy.deepcopy\<close> a second
  one with the same content; the function returns the first. On the exception it logs,
  assigns nothing and returns a new empty list.
\<close>

datatype fetch_outcome = Fetched "service list" | RequestException

definition load_status_data :: "fetch_outcome \<Rightarrow> state \<Rightarrow> service list \<times> state" where
  "load_status_data outcome s =
     (case outcome of
        Fetched doc \<Rightarrow>
          (let a = next_addr s; b = Suc (next_addr s)
           in (doc, s\<lparr>heap := (heap s)(a := doc, b := doc), next_addr := Suc b,
                       global_statuses := Some a, original_statuses := Some b,
                       has_unsaved_changes := False\<rparr>))
      | RequestException \<Rightarrow> ([], s))"


subsection \<open>\<^verbatim>\<open>has_changes\<close>\<close>

definition has_changes :: "state \<Rightarrow> bool" where
  "has_changes s =
     (case (original_statuses s, global_statuses s) of
        (Some b, Some a) \<Rightarrow>
          (if length (heap s a) \<noteq> length (heap s b) then True
           else json_dumps (heap s a) \<noteq> json_dumps (heap s b))
      | _ \<Rightarrow> False)"


section \<open>Field validation\<close>

text \<open>
  The two patterns are matched with \<^verbatim>\<open>re.match\<close>. On code points below 256 the class
  \<^verbatim>\<open>\d\<close> is the ten ASCII digits, and \<^verbatim>\<open>\w\<close> is the ASCII letters, digits and underscore
  together with the letters and numeric signs of the Latin-1 block.
\<close>

definition is_digit :: "char \<Rightarrow> bool" where
  "is_digit c = (c \<in> set ''0123456789'')"

definition is_hex_digit :: "char \<Rightarrow> bool" where
  "is_hex_digit c = (c \<in> set ''0123456789abcdefABCDEF'')"

definition is_word_char :: "char \<Rightarrow> bool" where
  "is_word_char c =
     (let n = (of_char c :: nat)
      in is_digit c \<or> (65 \<le> n \<and> n \<le> 90) \<or> n = 95 \<or> (97 \<le> n \<and> n \<le> 122)
         \<or> n \<in> {170, 178, 179, 181, 185, 186, 188, 189, 190}
         \<or> (192 \<le> n \<and> n \<le> 214) \<or> (216 \<le> n \<and> n \<le> 246) \<or> 248 \<le> n)"

datatype atom = Digit | Lit char

fun atom_matches :: "atom \<Rightarrow> char \<Rightarrow> bool" where
  "atom_matches Digit c = is_digit c"
| "atom_matches (Lit l) c = (c = l)"

text \<open>Matching a sequence of one-character atoms at the start of a string; the rest is returned.\<close>

fun match_atoms :: "atom list \<Rightarrow> string \<Rightarrow> string option" where
  "match_atoms [] s = Some s"
| "match_atoms (a # as) [] = None"
| "match_atoms (a # as) (c # cs) = (if atom_matches a c then match_atoms as cs else None)"

definition date_pattern :: "atom list" where
  "date_pattern =
     [Digit, Digit, Digit, Digit, Lit (CHR ''-''), Digit, Digit, Lit (CHR ''-''), Digit, Digit,
      Lit (CHR ''T''), Digit, Digit, Lit (CHR '':''), Digit, Digit]"

text \<open>
  \<^verbatim>\<open>^\d{4}-\d{2}-\d{2}T\d{2}:\d{2}$\<close>: the dollar sign matches at the end of the string and
  also just before a newline that ends it.
\<close>

definition date_pattern_matches :: "string \<Rightarrow> bool" where
  "date_pattern_matches s =
     (case match_atoms date_pattern s of
        None \<Rightarrow> False
      | Some rest \<Rightarrow> rest = [] \<or> rest = [CHR 0x0A])"

definition digits_value :: "string \<Rightarrow> nat" where
  "digits_value ds = foldl (\<lambda>n c. 10 * n + ((of_char c :: nat) - 48)) 0 ds"

definition leap_year :: "nat \<Rightarrow> bool" where
  "leap_year y = (y mod 4 = 0 \<and> (y mod 100 \<noteq> 0 \<or> y mod 400 = 0))"

definition days_in_month :: "nat \<Rightarrow> nat \<Rightarrow> nat" where
  "days_in_month y m =
     (if m = 2 then (if leap_year y then 29 else 28)
      else if m \<in> {4, 6, 9, 11} then 30 else 31)"

text \<open>
  \<^verbatim>\<open>datetime.datetime.strptime(date_str, "%Y-%m-%dT%H:%M")\<close> on a string that has passed the
  pattern: it raises \<^verbatim>\<open>ValueError\<close> unless the whole string is consumed (so a trailing
  newline is refused), the year is at least 1, and month, day, hour and minute are in range
  for the calendar.
\<close>

definition strptime_accepts :: "string \<Rightarrow> bool" where
  "strptime_accepts s =
     (let y = digits_value (take 4 s); mo = digits_value (take 2 (drop 5 s));
          d = digits_value (take 2 (drop 8 s)); h = digits_value (take 2 (drop 11 s));
          mi = digits_value (take 2 (drop 14 s))
      in length s = 16 \<and> 1 \<le> y \<and> 1 \<le> mo \<and> mo \<le> 12 \<and> 1 \<le> d \<and> d \<le> days_in_month y mo
         \<and> h \<le> 23 \<and> mi \<le> 59)"

text \<open>The texts put into the \<^verbatim>\<open>errors\<close> dict, one constructor for each.\<close>

datatype message =
    DateFormatMessage
  | InvalidDateMessage
  | InvalidUrlMessage
  | UpdateRequiredMessage
  | NameEmptyMessage
  | SummaryEmptyMessage

text \<open>
  \<^verbatim>\<open>validate_date_format\<close> and \<^verbatim>\<open>validate_url\<close> return a pair \<^verbatim>\<open>(is_valid, error_msg)\<close>;
  here \<^const>\<open>None\<close> is \<^verbatim>\<open>(True, None)\<close> and \<open>Some m\<close> is \<^verbatim>\<open>(False, m)\<close>.
\<close>

definition validate_date_format :: "string \<Rightarrow> message option" where
  "validate_date_format date_str =
     (if \<not> date_pattern_matches date_str then Some DateFormatMessage
      else if strptime_accepts date_str then None
      else Some InvalidDateMessage)"

fun drop_prefix :: "string \<Rightarrow> string \<Rightarrow> string option" where
  "drop_prefix [] s = Some s"
| "drop_prefix (p # ps) [] = None"
| "drop_prefix (p # ps) (c # cs) = (if p = c then drop_prefix ps cs else None)"

text \<open>One repetition of the group \<^verbatim>\<open>(?:[-\w.]|(?:%[\da-fA-F]{2}))\<close> at the start of a string.\<close>

fun url_group_matches :: "string \<Rightarrow> bool" where
  "url_group_matches [] = False"
| "url_group_matches (c # cs) =
     (c = CHR ''-'' \<or> is_word_char c \<or> c = CHR ''.''
      \<or> (c = CHR ''%'' \<and> (case cs of a # b # _ \<Rightarrow> is_hex_digit a \<and> is_hex_digit b | _ \<Rightarrow> False)))"

text \<open>\<^verbatim>\<open>^https?://(?:[-\w.]|(?:%[\da-fA-F]{2}))+\<close>, matched at the start only.\<close>

definition url_pattern_matches :: "string \<Rightarrow> bool" where
  "url_pattern_matches url =
     (case drop_prefix ''http'' url of
        None \<Rightarrow> False
      | Some r \<Rightarrow>
          (case drop_prefix ''://'' (case r of c # cs \<Rightarrow> if c = CHR ''s'' then cs else r | [] \<Rightarrow> r) of
             None \<Rightarrow> False
           | Some rest \<Rightarrow> url_group_matches rest))"

definition validate_url :: "string \<Rightarrow> message option" where
  "validate_url url =
     (if url = [] then None
      else if \<not> url_pattern_matches url then Some InvalidUrlMessage
      else None)"


section \<open>Python lists\<close>

text \<open>
  The position a list index stands for: \<open>-1\<close> is the last element, \<open>-2\<close> the one before,
  and so on; \<^const>\<open>None\<close> where Python raises \<^verbatim>\<open>IndexError\<close>.
\<close>

definition py_index :: "'a list \<Rightarrow> int \<Rightarrow> nat option" where
  "py_index xs i =
     (if 0 \<le> i \<and> i < int (length xs) then Some (nat i)
      else if i < 0 \<and> - int (length xs) \<le> i then Some (nat (int (length xs) + i))
      else None)"

definition py_getitem :: "'a list \<Rightarrow> int \<Rightarrow> py_exn + 'a" where
  "py_getitem xs i = (case py_index xs i of None \<Rightarrow> Inl IndexError | Some j \<Rightarrow> Inr (xs ! j))"

definition py_setitem :: "'a list \<Rightarrow> int \<Rightarrow> 'a \<Rightarrow> py_exn + 'a list" where
  "py_setitem xs i v = (case py_index xs i of None \<Rightarrow> Inl IndexError | Some j \<Rightarrow> Inr (xs[j := v]))"

definition py_pop :: "'a list \<Rightarrow> int \<Rightarrow> py_exn + 'a list" where
  "py_pop xs i =
     (case py_index xs i of None \<Rightarrow> Inl IndexError | Some j \<Rightarrow> Inr (take j xs @ drop (Suc j) xs))"


section \<open>The submitted form\<close>

text \<open>
  A view submission carries \<^verbatim>\<open>view["state"]["values"]\<close>, a dict from block id to a dict from
  action id to the state of the input element, and \<^verbatim>\<open>view["private_metadata"]\<close>, which
  every handler here writes as \<^verbatim>\<open>f"{service_index}:0"\<close>. The dicts are association lists in
  iteration order. The state of a text input has the key \<^verbatim>\<open>value\<close> (a string, or \<^verbatim>\<open>None\<close>
  when the field is empty); the state of a select has the key \<^verbatim>\<open>selected_option\<close>
  (\<^verbatim>\<open>None\<close>, or an option with its text and its value). The metadata is modelled by the
  integer \<^verbatim>\<open>int(metadata[0])\<close> it is parsed to.
\<close>

datatype element_state =
    PlainTextInput "string option"
  | StaticSelect "(string \<times> string) option"

type_synonym view_values = "(string \<times> (string \<times> element_state) list) list"

record view =
  private_metadata :: int
  state_values :: view_values

type_synonym errors = "(string \<times> message) list"

text \<open>\<^verbatim>\<open>values[block_id][action_id]["value"]\<close> and \<^verbatim>\<open>...["selected_option"]["text"]["text"]\<close>.\<close>

definition lookup_value :: "view_values \<Rightarrow> string \<Rightarrow> string \<Rightarrow> py_exn + string option" where
  "lookup_value vals block_id action_id =
     (case map_of vals block_id of
        None \<Rightarrow> Inl KeyError
      | Some actions \<Rightarrow>
          (case map_of actions action_id of
             None \<Rightarrow> Inl KeyError
           | Some (PlainTextInput v) \<Rightarrow> Inr v
           | Some (StaticSelect _) \<Rightarrow> Inl KeyError))"

definition lookup_selected_text :: "view_values \<Rightarrow> string \<Rightarrow> string \<Rightarrow> py_exn + string" where
  "lookup_selected_text vals block_id action_id =
     (case map_of vals block_id of
        None \<Rightarrow> Inl KeyError
      | Some actions \<Rightarrow>
          (case map_of actions action_id of
             None \<Rightarrow> Inl KeyError
           | Some (PlainTextInput _) \<Rightarrow> Inl KeyError
           | Some (StaticSelect None) \<Rightarrow> Inl TypeError
           | Some (StaticSelect (Some (text, _))) \<Rightarrow> Inr text))"

text \<open>Python's truth value of a string or \<^verbatim>\<open>None\<close>, and the string behind a true one.\<close>

definition truthy :: "string option \<Rightarrow> bool" where
  "truthy v = (case v of None \<Rightarrow> False | Some s \<Rightarrow> s \<noteq> [])"

definition str_of :: "string option \<Rightarrow> string" where
  "str_of v = (case v of None \<Rightarrow> [] | Some s \<Rightarrow> s)"


subsection \<open>Finding the blocks\<close>

record service_blocks =
  service_name_block :: "string option"
  service_status_block :: "string option"
  service_date_block :: "string option"
  service_summary_block :: "string option"

definition note_service_action ::
  "string \<Rightarrow> service_blocks \<Rightarrow> string \<times> element_state \<Rightarrow> service_blocks" where
  "note_service_action block_id bs action =
     (if fst action = ''service_name_input'' then bs\<lparr>service_name_block := Some block_id\<rparr>
      else if fst action = ''service_status_select'' then bs\<lparr>service_status_block := Some block_id\<rparr>
      else if fst action = ''service_date_input'' then bs\<lparr>service_date_block := Some block_id\<rparr>
      else if fst action = ''service_summary_input'' then bs\<lparr>service_summary_block := Some block_id\<rparr>
      else bs)"

definition find_service_blocks :: "view_values \<Rightarrow> service_blocks" where
  "find_service_blocks vals =
     foldl (\<lambda>bs block. foldl (note_service_action (fst block)) bs (snd block))
       \<lparr>service_name_block = None, service_status_block = None,
        service_date_block = None, service_summary_block = None\<rparr> vals"

text \<open>
  \<^verbatim>\<open>re.match(r"update_(\d+)_date", block_id)\<close> and its two siblings: the digits are taken
  greedily, and the field name has to follow them; the result is \<^verbatim>\<open>match.group(1)\<close>.
\<close>

definition match_update_block :: "string \<Rightarrow> string \<Rightarrow> string option" where
  "match_update_block field block_id =
     (case drop_prefix ''update_'' block_id of
        None \<Rightarrow> None
      | Some r \<Rightarrow>
          (if takeWhile is_digit r \<noteq> [] \<and> drop_prefix (CHR ''_'' # field) (dropWhile is_digit r) \<noteq> None
           then Some (takeWhile is_digit r) else None))"

record update_block_maps =
  update_blocks :: "(string \<times> string) list"
  update_details_blocks :: "(string \<times> string) list"
  update_url_blocks :: "(string \<times> string) list"

definition note_update_action ::
  "string \<Rightarrow> update_block_maps \<Rightarrow> string \<times> element_state \<Rightarrow> update_block_maps" where
  "note_update_action block_id m action =
     (if fst action = ''update_date_input'' then
        (case match_update_block ''date'' block_id of
           Some idx \<Rightarrow> m\<lparr>update_blocks := AList.update idx block_id (update_blocks m)\<rparr>
         | None \<Rightarrow> m)
      else if fst action = ''update_details_input'' then
        (case match_update_block ''details'' block_id of
           Some idx \<Rightarrow> m\<lparr>update_details_blocks := AList.update idx block_id (update_details_blocks m)\<rparr>
         | None \<Rightarrow> m)
      else if fst action = ''update_url_input'' then
        (case match_update_block ''url'' block_id of
           Some idx \<Rightarrow> m\<lparr>update_url_blocks := AList.update idx block_id (update_url_blocks m)\<rparr>
         | None \<Rightarrow> m)
      else m)"

definition find_update_blocks :: "view_values \<Rightarrow> update_block_maps" where
  "find_update_blocks vals =
     foldl (\<lambda>m block. foldl (note_update_action (fst block)) m (snd block))
       \<lparr>update_blocks = [], update_details_blocks = [], update_url_blocks = []\<rparr> vals"


subsection \<open>Processing the updates\<close>

text \<open>
  One round of the loop \<^verbatim>\<open>for idx in sorted(update_blocks.keys())\<close>, on the pair of the
  \<^verbatim>\<open>errors\<close> dict and the list \<^verbatim>\<open>updated_service["updates"]\<close>. An index without a details
  block is passed over. A date that is \<^verbatim>\<open>None\<close> makes \<^verbatim>\<open>re.match\<close> raise \<^verbatim>\<open>TypeError\<close>. The
  two \<^verbatim>\<open>continue\<close> statements leave the round with the error recorded and no update
  appended.
\<close>

definition process_update ::
  "view_values \<Rightarrow> update_block_maps \<Rightarrow> string \<Rightarrow> errors \<times> update_entry list
     \<Rightarrow> py_exn + errors \<times> update_entry list" where
  "process_update vals m idx acc =
     (case map_of (update_details_blocks m) idx of
        None \<Rightarrow> Inr acc
      | Some update_details_block \<Rightarrow>
          (case map_of (update_blocks m) idx of
             None \<Rightarrow> Inl KeyError
           | Some update_block \<Rightarrow>
               (case lookup_value vals update_block ''update_date_input'' of
                  Inl e \<Rightarrow> Inl e
                | Inr update_date \<Rightarrow>
                    (case lookup_value vals update_details_block ''update_details_input'' of
                       Inl e \<Rightarrow> Inl e
                     | Inr update_details \<Rightarrow>
                         (case update_date of
                            None \<Rightarrow> Inl TypeError
                          | Some d \<Rightarrow>
                              (case validate_date_format d of
                                 Some error_msg \<Rightarrow>
                                   Inr (AList.update update_block error_msg (fst acc), snd acc)
                               | None \<Rightarrow>
                                   (case map_of (update_url_blocks m) idx of
                                      None \<Rightarrow>
                                        Inr (fst acc, snd acc @
                                          [\<lparr>upd_date = d, upd_details = update_details, upd_url = None\<rparr>])
                                    | Some update_url_block \<Rightarrow>
                                        (case lookup_value vals update_url_block ''update_url_input'' of
                                           Inl e \<Rightarrow> Inl e
                                         | Inr url_value \<Rightarrow>
                                             (if truthy url_value then
                                                (case validate_url (str_of url_value) of
                                                   Some error_msg \<Rightarrow>
                                                     Inr (AList.update update_url_block error_msg (fst acc), snd acc)
                                                 | None \<Rightarrow>
                                                     Inr (fst acc, snd acc @
                                                       [\<lparr>upd_date = d, upd_details = update_details,
                                                         upd_url = url_value\<rparr>]))
                                              else
                                                Inr (fst acc, snd acc @
                                                  [\<lparr>upd_date = d, upd_details = update_details,
                                                    upd_url = None\<rparr>]))))))))))"

text \<open>
  The loop. An exception leaves it; the \<^verbatim>\<open>errors\<close> dict of that moment goes with it, since
  the handler's \<^verbatim>\<open>except\<close> branch looks at it.
\<close>

fun process_updates ::
  "view_values \<Rightarrow> update_block_maps \<Rightarrow> string list \<Rightarrow> errors \<times> update_entry list
     \<Rightarrow> py_exn \<times> errors + errors \<times> update_entry list" where
  "process_updates vals m [] acc = Inr acc"
| "process_updates vals m (idx # rest) acc =
     (case process_update vals m idx acc of
        Inl e \<Rightarrow> Inl (e, fst acc)
      | Inr acc' \<Rightarrow> process_updates vals m rest acc')"


subsection \<open>Reading and validating a submission\<close>

text \<open>
  \<^verbatim>\<open>handle_edit_service_submission\<close> and \<^verbatim>\<open>handle_add_service_submission\<close> run the same
  statements from the search for the four service blocks down to the three basic
  validations; \<open>collect_submission\<close> is that common part. It yields the \<^verbatim>\<open>errors\<close> dict
  and the service object built from the form, or the exception raised on the way together
  with the \<^verbatim>\<open>errors\<close> dict of that moment. \<^verbatim>\<open>all([...])\<close> wants the four block ids true.
  The service object is only used when \<^verbatim>\<open>errors\<close> is empty, and then the name and the summary
  are strings. The three statements under the comment \<^verbatim>\<open>Basic validations\<close> are
  \<open>basic_validations\<close>.
\<close>

definition basic_validations ::
  "string \<Rightarrow> string \<Rightarrow> string option \<Rightarrow> string option \<Rightarrow> errors \<times> update_entry list
     \<Rightarrow> errors" where
  "basic_validations name_block summary_block service_name service_summary acc =
     (let errors1 =
            (if snd acc = [] then AList.update summary_block UpdateRequiredMessage (fst acc)
             else fst acc);
          errors2 =
            (if \<not> truthy service_name then AList.update name_block NameEmptyMessage errors1
             else errors1)
      in if \<not> truthy service_summary
         then AList.update summary_block SummaryEmptyMessage errors2
         else errors2)"

text \<open>The ids of the three service blocks that can carry an error.\<close>

definition name_block_of :: "view_values \<Rightarrow> string" where
  "name_block_of vals = str_of (service_name_block (find_service_blocks vals))"

definition date_block_of :: "view_values \<Rightarrow> string" where
  "date_block_of vals = str_of (service_date_block (find_service_blocks vals))"

definition summary_block_of :: "view_values \<Rightarrow> string" where
  "summary_block_of vals = str_of (service_summary_block (find_service_blocks vals))"

definition collect_submission :: "view_values \<Rightarrow> py_exn \<times> errors + errors \<times> service" where
  "collect_submission vals =
     (let bs = find_service_blocks vals;
          status_block = str_of (service_status_block bs)
      in
      if \<not> (truthy (service_name_block bs) \<and> truthy (service_status_block bs)
            \<and> truthy (service_date_block bs) \<and> truthy (service_summary_block bs))
      then Inl (ValueError, [])
      else
        (case lookup_value vals (name_block_of vals) ''service_name_input'' of
           Inl e \<Rightarrow> Inl (e, [])
         | Inr service_name \<Rightarrow>
        (case lookup_selected_text vals status_block ''service_status_select'' of
           Inl e \<Rightarrow> Inl (e, [])
         | Inr service_status \<Rightarrow>
        (case lookup_value vals (date_block_of vals) ''service_date_input'' of
           Inl e \<Rightarrow> Inl (e, [])
         | Inr service_date \<Rightarrow>
        (case lookup_value vals (summary_block_of vals) ''service_summary_input'' of
           Inl e \<Rightarrow> Inl (e, [])
         | Inr service_summary \<Rightarrow>
        (case service_date of
           None \<Rightarrow> Inl (TypeError, [])
         | Some d \<Rightarrow>
             (let errors0 =
                    (case validate_date_format d of
                       Some error_msg \<Rightarrow> AList.update (date_block_of vals) error_msg []
                     | None \<Rightarrow> []);
                  m = find_update_blocks vals
              in
              case process_updates vals m (sort (map fst (update_blocks m))) (errors0, []) of
                Inl x \<Rightarrow> Inl x
              | Inr acc \<Rightarrow>
                  Inr (basic_validations (name_block_of vals) (summary_block_of vals)
                         service_name service_summary acc,
                       \<lparr>status = service_status, affectedServices = str_of service_name,
                        summary = str_of service_summary, date = d, updates = snd acc\<rparr>))))))))"

text \<open>An entry of the \<^verbatim>\<open>errors\<close> dict under the given block id.\<close>

definition reported :: "errors \<Rightarrow> string \<Rightarrow> bool" where
  "reported errs block_id = (block_id \<in> fst ` set errs)"


section \<open>The handlers\<close>

subsection \<open>\<^verbatim>\<open>handle_edit_service_submission\<close> and \<^verbatim>\<open>handle_add_service_submission\<close>\<close>

text \<open>
  What the handler tells Slack and the user: the errors given to \<^verbatim>\<open>ack\<close>, a plain \<^verbatim>\<open>ack()\<close>
  followed by the change, or the \<^verbatim>\<open>except\<close> branch, which calls \<^verbatim>\<open>ack()\<close> only when \<^verbatim>\<open>errors\<close>
  is empty (the flag) and posts the exception. With \<^verbatim>\<open>global_statuses\<close> still \<^verbatim>\<open>None\<close> the item
  assignment raises \<^verbatim>\<open>TypeError\<close> and \<^verbatim>\<open>append\<close> raises \<^verbatim>\<open>AttributeError\<close>. What follows the
  change (redrawing the list, or a confirmation message) reads the state and does not
  change it, whether it succeeds or raises (\<^verbatim>\<open>get_status_data\<close> loads only while
  \<^verbatim>\<open>global_statuses\<close> is \<^verbatim>\<open>None\<close>); it is left out, and so is the redrawing after a delete.
\<close>

datatype submission_result =
    ValidationErrors errors
  | ServiceSaved
  | SubmissionRaised py_exn bool

definition handle_edit_service_submission :: "view \<Rightarrow> state \<Rightarrow> submission_result \<times> state" where
  "handle_edit_service_submission v s =
     (let service_index = private_metadata v
      in case collect_submission (state_values v) of
           Inl x \<Rightarrow> (SubmissionRaised (fst x) (snd x = []), s)
         | Inr r \<Rightarrow>
             (if fst r \<noteq> [] then (ValidationErrors (fst r), s)
              else
                (case global_statuses s of
                   None \<Rightarrow> (SubmissionRaised TypeError True, s)
                 | Some a \<Rightarrow>
                     (case py_setitem (heap s a) service_index (snd r) of
                        Inl e \<Rightarrow> (SubmissionRaised e True, s)
                      | Inr xs \<Rightarrow>
                          (ServiceSaved,
                           s\<lparr>heap := (heap s)(a := xs), has_unsaved_changes := True,
                             working_copies := (working_copies s)(service_index := None)\<rparr>)))))"

definition handle_add_service_submission :: "view \<Rightarrow> state \<Rightarrow> submission_result \<times> state" where
  "handle_add_service_submission v s =
     (case collect_submission (state_values v) of
        Inl x \<Rightarrow> (SubmissionRaised (fst x) (snd x = []), s)
      | Inr r \<Rightarrow>
          (if fst r \<noteq> [] then (ValidationErrors (fst r), s)
           else
             (case global_statuses s of
                None \<Rightarrow> (SubmissionRaised AttributeError True, s)
              | Some a \<Rightarrow>
                  (ServiceSaved,
                   s\<lparr>heap := (heap s)(a := heap s a @ [snd r]), has_unsaved_changes := True,
                     working_copies := (working_copies s)(- 1 := None)\<rparr>))))"


subsection \<open>\<^verbatim>\<open>handle_delete_service\<close>\<close>

text \<open>
  The service name is read before the range check, so an index that Python cannot resolve
  raises \<^verbatim>\<open>IndexError\<close> (or \<^verbatim>\<open>TypeError\<close> without a list) and ends in the \<^verbatim>\<open>except\<close> branch; a
  negative index that Python resolves from the end reaches the check and gets the
  out-of-range message.
\<close>

datatype delete_service_result =
    ServiceDeleted
  | ServiceIndexOutOfRange int nat
  | DeleteServiceRaised py_exn

definition handle_delete_service :: "int \<Rightarrow> state \<Rightarrow> delete_service_result \<times> state" where
  "handle_delete_service service_index s =
     (case global_statuses s of
        None \<Rightarrow> (DeleteServiceRaised TypeError, s)
      | Some a \<Rightarrow>
          (case py_getitem (heap s a) service_index of
             Inl e \<Rightarrow> (DeleteServiceRaised e, s)
           | Inr service_name_source \<Rightarrow>
               (if 0 \<le> service_index \<and> service_index < int (length (heap s a)) then
                  (case py_pop (heap s a) service_index of
                     Inl e \<Rightarrow> (DeleteServiceRaised e, s)
                   | Inr xs \<Rightarrow>
                       (ServiceDeleted,
                        s\<lparr>heap := (heap s)(a := xs), has_unsaved_changes := True,
                          working_copies := (working_copies s)(service_index := None)\<rparr>))
                else (ServiceIndexOutOfRange service_index (length (heap s a)), s))))"


subsection \<open>The working copy: \<^verbatim>\<open>handle_add_service\<close>, \<^verbatim>\<open>handle_add_update\<close>, \<^verbatim>\<open>handle_delete_update\<close>\<close>

text \<open>
  These handlers redraw the modal with \<^verbatim>\<open>views_update\<close>. Of the view they send, the model
  keeps what decides the next submission: the callback id (Slack routes a submission whose
  callback id starts with \<^verbatim>\<open>edit_service_modal\<close> to \<^verbatim>\<open>handle_edit_service_submission\<close> and one
  that starts with \<^verbatim>\<open>add_service_modal\<close> to \<^verbatim>\<open>handle_add_service_submission\<close>), the index in
  the private metadata, and the service shown.
\<close>

datatype modal = EditServiceModal | AddServiceModal

datatype working_copy_result =
    ViewUpdated modal int service
  | UpdateNotFound int nat
  | WorkingCopyRaised py_exn

definition empty_service :: service where
  "empty_service =
     \<lparr>status = ''resolved'', affectedServices = [], summary = [], date = [], updates = []\<rparr>"

text \<open>
  \<^verbatim>\<open>show_service_details\<close> (called by \<^verbatim>\<open>handle_edit_service\<close>) drops the working copy of the
  service and shows the service itself. Should \<^verbatim>\<open>global_statuses\<close> still be \<^verbatim>\<open>None\<close>, it
  assigns the result of \<^verbatim>\<open>get_status_data()\<close>, that is of \<^verbatim>\<open>load_status_data()\<close>: the list just
  loaded, or after a failed request a new empty list, with \<^verbatim>\<open>original_statuses\<close> left alone.
  An exception is logged; what was changed before stays changed.
\<close>

definition show_service_details ::
  "int \<Rightarrow> fetch_outcome \<Rightarrow> state \<Rightarrow> working_copy_result \<times> state" where
  "show_service_details service_index outcome s =
     (let s1 = s\<lparr>working_copies := (working_copies s)(service_index := None)\<rparr>;
          s2 = (case global_statuses s1 of
                  Some a \<Rightarrow> s1
                | None \<Rightarrow>
                    (case outcome of
                       Fetched doc \<Rightarrow> snd (load_status_data outcome s1)
                     | RequestException \<Rightarrow>
                         s1\<lparr>heap := (heap s1)(next_addr s1 := []),
                            next_addr := Suc (next_addr s1),
                            global_statuses := Some (next_addr s1)\<rparr>))
      in case global_statuses s2 of
           None \<Rightarrow> (WorkingCopyRaised TypeError, s2)
         | Some a \<Rightarrow>
             (case py_getitem (heap s2 a) service_index of
                Inl e \<Rightarrow> (WorkingCopyRaised e, s2)
              | Inr shown \<Rightarrow> (ViewUpdated EditServiceModal service_index shown, s2)))"

definition handle_add_service :: "state \<Rightarrow> working_copy_result \<times> state" where
  "handle_add_service s =
     (ViewUpdated AddServiceModal (- 1) empty_service,
      s\<lparr>working_copies := (working_copies s)(- 1 := None)\<rparr>)"

text \<open>
  \<^verbatim>\<open>working_copies[service_index]\<close> if there is one, else a copy of
  \<^verbatim>\<open>global_statuses[service_index]\<close> with a new list of copied updates.
\<close>

definition get_working_copy :: "int \<Rightarrow> state \<Rightarrow> py_exn + service" where
  "get_working_copy service_index s =
     (case working_copies s service_index of
        Some working_copy \<Rightarrow> Inr working_copy
      | None \<Rightarrow>
          (case global_statuses s of
             None \<Rightarrow> Inl TypeError
           | Some a \<Rightarrow> py_getitem (heap s a) service_index))"

definition handle_delete_update :: "int \<Rightarrow> int \<Rightarrow> state \<Rightarrow> working_copy_result \<times> state" where
  "handle_delete_update service_index update_index s =
     (case get_working_copy service_index s of
        Inl e \<Rightarrow> (WorkingCopyRaised e, s)
      | Inr working_copy \<Rightarrow>
          (if update_index < int (length (updates working_copy)) then
             (case py_pop (updates working_copy) update_index of
                Inl e \<Rightarrow> (WorkingCopyRaised e, s)
              | Inr us \<Rightarrow>
                  (ViewUpdated EditServiceModal service_index (working_copy\<lparr>updates := us\<rparr>),
                   s\<lparr>working_copies :=
                       (working_copies s)(service_index \<mapsto> working_copy\<lparr>updates := us\<rparr>)\<rparr>))
           else (UpdateNotFound update_index (length (updates working_copy)), s)))"

text \<open>
  For a new service without a working copy that has updates, \<^verbatim>\<open>handle_add_update\<close> starts
  from the default values and takes over what the form in \<^verbatim>\<open>body["view"]["state"]["values"]\<close>
  holds (\<^const>\<open>None\<close> when the body has no such entry). A select whose \<^verbatim>\<open>selected_option\<close> is
  \<^verbatim>\<open>None\<close> raises \<^verbatim>\<open>AttributeError\<close>, which the inner \<^verbatim>\<open>except\<close> catches: the loop stops, and
  the stored working copy is used instead if there is one.
\<close>

fun take_form_values :: "(string \<times> element_state) list \<Rightarrow> service \<Rightarrow> service \<times> bool" where
  "take_form_values [] w = (w, False)"
| "take_form_values ((action_id, PlainTextInput v) # rest) w =
     (if action_id = ''service_name_input'' then take_form_values rest (w\<lparr>affectedServices := str_of v\<rparr>)
      else if action_id = ''service_date_input'' then take_form_values rest (w\<lparr>date := str_of v\<rparr>)
      else if action_id = ''service_summary_input'' then take_form_values rest (w\<lparr>summary := str_of v\<rparr>)
      else take_form_values rest w)"
| "take_form_values ((action_id, StaticSelect None) # rest) w =
     (if action_id = ''service_status_select'' then (w, True) else take_form_values rest w)"
| "take_form_values ((action_id, StaticSelect (Some option)) # rest) w =
     (if action_id = ''service_status_select'' then take_form_values rest (w\<lparr>status := snd option\<rparr>)
      else take_form_values rest w)"

definition new_service_working_copy :: "view_values option \<Rightarrow> state \<Rightarrow> service" where
  "new_service_working_copy body_values s =
     (case working_copies s (- 1) of
        None \<Rightarrow>
          (case body_values of
             None \<Rightarrow> empty_service
           | Some vals \<Rightarrow> fst (take_form_values (concat (map snd vals)) empty_service))
      | Some stored \<Rightarrow>
          (if updates stored = [] then
             (case body_values of
                None \<Rightarrow> empty_service
              | Some vals \<Rightarrow>
                  (if snd (take_form_values (concat (map snd vals)) empty_service) then stored
                   else fst (take_form_values (concat (map snd vals)) empty_service)))
           else stored))"

definition handle_add_update ::
  "int \<Rightarrow> view_values option \<Rightarrow> state \<Rightarrow> working_copy_result \<times> state" where
  "handle_add_update service_index body_values s =
     (case (if service_index = - 1 then Inr (new_service_working_copy body_values s)
            else get_working_copy service_index s) of
        Inl e \<Rightarrow> (WorkingCopyRaised e, s)
      | Inr working_copy \<Rightarrow>
          (let w = working_copy\<lparr>updates := updates working_copy
                     @ [\<lparr>upd_date = [], upd_details = Some [], upd_url = Some []\<rparr>]\<rparr>
           in (ViewUpdated (if service_index = - 1 then AddServiceModal else EditServiceModal)
                 service_index w,
               s\<lparr>working_copies := (working_copies s)(service_index \<mapsto> w)\<rparr>)))"


subsection \<open>\<^verbatim>\<open>handle_submit_changes\<close>\<close>

text \<open>
  The environment of a submission: the \<^verbatim>\<open>GITHUB_TOKEN\<close> variable and the outcome of the two
  requests to the GitHub contents API (a status code, or an exception of \<^verbatim>\<open>requests\<close>). The
  handler returns what it tells the user, together with the requests it has sent to GitHub;
  the \<^verbatim>\<open>PUT\<close> carries the serialised list behind \<^verbatim>\<open>global_statuses\<close>. The calls to Slack
  (the user's name for the commit message, the messages, the closing view) are left out.
\<close>

datatype http_outcome = Status nat | RequestRaised

record environment =
  github_token :: "string option"
  get_outcome :: http_outcome
  put_outcome :: http_outcome

datatype remote_call = GithubGet | GithubPut "service list option"

datatype submit_result =
    NoChangesDetected
  | TokenNotFound
  | GetFileError nat
  | UpdateFileError nat
  | ChangesSubmitted
  | SubmitRaised

definition handle_submit_changes ::
  "environment \<Rightarrow> state \<Rightarrow> submit_result \<times> remote_call list \<times> state" where
  "handle_submit_changes env s =
     (if \<not> has_changes s then (NoChangesDetected, [], s)
      else if \<not> truthy (github_token env) then (TokenNotFound, [], s)
      else
        (case get_outcome env of
           RequestRaised \<Rightarrow> (SubmitRaised, [GithubGet], s)
         | Status c \<Rightarrow>
             (if c \<noteq> 200 then (GetFileError c, [GithubGet], s)
              else
                (case put_outcome env of
                   RequestRaised \<Rightarrow> (SubmitRaised, [GithubGet, GithubPut (canonical s)], s)
                 | Status c' \<Rightarrow>
                     (if c' \<noteq> 200 \<and> c' \<noteq> 201
                      then (UpdateFileError c', [GithubGet, GithubPut (canonical s)], s)
                      else (ChangesSubmitted, [GithubGet, GithubPut (canonical s)],
                            s\<lparr>has_unsaved_changes := False\<rparr>))))))"


section \<open>Sequences of edits on working copies\<close>

text \<open>
  The handlers that open a service and edit its working copy, as a list of user actions run
  in order.
\<close>

datatype draft_edit =
    EditService int fetch_outcome
  | AddService
  | AddUpdate int "view_values option"
  | DeleteUpdate int int

fun apply_edit :: "draft_edit \<Rightarrow> state \<Rightarrow> state" where
  "apply_edit (EditService service_index outcome) s =
     snd (show_service_details service_index outcome s)"
| "apply_edit AddService s = snd (handle_add_service s)"
| "apply_edit (AddUpdate service_index body_values) s =
     snd (handle_add_update service_index body_values s)"
| "apply_edit (DeleteUpdate service_index update_index) s =
     snd (handle_delete_update service_index update_index s)"

definition apply_edits :: "draft_edit list \<Rightarrow> state \<Rightarrow> state" where
  "apply_edits es s = foldl (\<lambda>t e. apply_edit e t) s es"


section \<open>The modal of a service\<close>

text \<open>
  \<^verbatim>\<open>create_service_detail_blocks\<close> draws the modal of a service. Of its blocks the model
  keeps the input blocks, each with its block id, the action id of its element and the
  element's initial value or initial option. That is \<^verbatim>\<open>view["state"]["values"]\<close> of the
  submission when the user sends the modal as it was drawn: Slack reports the text of an
  input, and \<^verbatim>\<open>None\<close> for an input that is empty. The other blocks (headers, sections,
  buttons) carry no state; the service index goes into the values of the buttons only, the
  "Delete Update" button of the update at position \<open>j\<close> getting the value
  \<^verbatim>\<open>f"{service_index}:{j}"\<close>.
\<close>

text \<open>
  \<^verbatim>\<open>str.lower()\<close> on code points below 256: the ASCII capitals and the Latin-1 capitals
  from \<^verbatim>\<open>U+00C0\<close> to \<^verbatim>\<open>U+00DE\<close>, without the multiplication sign \<^verbatim>\<open>U+00D7\<close>, move up by 32.
\<close>

definition lower_char :: "char \<Rightarrow> char" where
  "lower_char c =
     (let n = (of_char c :: nat)
      in if (65 \<le> n \<and> n \<le> 90) \<or> (192 \<le> n \<and> n \<le> 222 \<and> n \<noteq> 215) then char_of (n + 32)
         else c)"

text \<open>The test \<^verbatim>\<open>sub in text\<close> on strings.\<close>

fun contains :: "string \<Rightarrow> string \<Rightarrow> bool" where
  "contains sub [] = (sub = [])"
| "contains sub (c # cs) = (drop_prefix sub (c # cs) \<noteq> None \<or> contains sub cs)"

text \<open>The initial option of the status select: \<^verbatim>\<open>(mapped_status, mapped_value)\<close>.\<close>

definition mapped_status :: "string \<Rightarrow> string \<times> string" where
  "mapped_status status_value =
     (let status_text = map lower_char status_value
      in if contains ''degraded'' status_text then (''Degraded'', ''degraded'')
         else if contains ''down'' status_text then (''Down'', ''down'')
         else if contains ''at risk'' status_text then (''At Risk'', ''at risk'')
         else (''Resolved'', ''resolved''))"

text \<open>\<^verbatim>\<open>str(j)\<close> for the position \<open>j\<close> that \<^verbatim>\<open>enumerate\<close> gives: the decimal digits.\<close>

fun str_nat :: "nat \<Rightarrow> string" where
  "str_nat n =
     (if n < 10 then [char_of (48 + n)] else str_nat (n div 10) @ [char_of (48 + n mod 10)])"

declare str_nat.simps [simp del]

text \<open>\<^verbatim>\<open>f"update_{j}_date_{unique_suffix}"\<close> and its two siblings.\<close>

definition update_block_id :: "string \<Rightarrow> nat \<Rightarrow> string \<Rightarrow> string" where
  "update_block_id unique_suffix j field =
     ''update_'' @ str_nat j @ ''_'' @ field @ ''_'' @ unique_suffix"

text \<open>The state of a text input that was drawn with the given \<^verbatim>\<open>initial_value\<close>.\<close>

definition initial_value :: "string \<Rightarrow> element_state" where
  "initial_value text = PlainTextInput (if text = [] then None else Some text)"

text \<open>
  The three input blocks of the update at position \<open>j\<close>. The values are
  \<^verbatim>\<open>str(update.get("date", ""))\<close> and so on: details that are \<^verbatim>\<open>None\<close> are shown as the text
  \<^verbatim>\<open>None\<close>, and an update without url has an empty url input.
\<close>

definition update_input_blocks :: "string \<Rightarrow> nat \<times> update_entry \<Rightarrow> view_values" where
  "update_input_blocks unique_suffix ju =
     [(update_block_id unique_suffix (fst ju) ''date'',
         [(''update_date_input'', initial_value (upd_date (snd ju)))]),
      (update_block_id unique_suffix (fst ju) ''details'',
         [(''update_details_input'',
           initial_value (case upd_details (snd ju) of None \<Rightarrow> ''None'' | Some d \<Rightarrow> d))]),
      (update_block_id unique_suffix (fst ju) ''url'',
         [(''update_url_input'',
           initial_value (case upd_url (snd ju) of None \<Rightarrow> [] | Some x \<Rightarrow> x))])]"

definition create_service_detail_blocks :: "string \<Rightarrow> service \<Rightarrow> view_values" where
  "create_service_detail_blocks unique_suffix r =
     [(''service_name_'' @ unique_suffix,
         [(''service_name_input'', initial_value (affectedServices r))]),
      (''service_status_'' @ unique_suffix,
         [(''service_status_select'', StaticSelect (Some (mapped_status (status r))))]),
      (''service_date_'' @ unique_suffix,
         [(''service_date_input'', initial_value (date r))]),
      (''service_summary_'' @ unique_suffix,
         [(''service_summary_input'', initial_value (summary r))])]
     @ concat (map (update_input_blocks unique_suffix) (enumerate 0 (updates r)))"




section \<open>Example data\<close>

text \<open>
  The service of the scenario in the specification, a second service, and forms as the
  modal submits them (block ids \<^verbatim>\<open>service_name_{suffix}\<close>, \<^verbatim>\<open>update_{j}_date_{suffix}\<close> and so
  on, here with the suffix \<^verbatim>\<open>1\<close>; the select offers the text \<^verbatim>\<open>Down\<close> with the value
  \<^verbatim>\<open>down\<close>).
\<close>

definition api_outage :: service where
  "api_outage =
     \<lparr>status = ''Down'', affectedServices = ''API'', summary = ''outage'',
      date = ''2024-05-20T10:00'',
      updates = [\<lparr>upd_date = ''2024-05-20T10:00'', upd_details = Some ''ongoing'', upd_url = None\<rparr>]\<rparr>"

definition disk_full :: service where
  "disk_full =
     \<lparr>status = ''Degraded'', affectedServices = ''Archive'', summary = ''disk full'',
      date = ''2024-06-01T09:15'',
      updates = [\<lparr>upd_date = ''2024-06-01T09:15'', upd_details = Some ''cleaning up'',
                  upd_url = Some ''https://example.com/disk''\<rparr>]\<rparr>"

definition down :: "string \<times> string" where
  "down = (''Down'', ''down'')"

definition service_fields ::
  "string \<Rightarrow> string \<times> string \<Rightarrow> string \<Rightarrow> string \<Rightarrow> view_values" where
  "service_fields name selected_option date_text summary_text =
     [(''service_name_1'', [(''service_name_input'', PlainTextInput (Some name))]),
      (''service_status_1'', [(''service_status_select'', StaticSelect (Some selected_option))]),
      (''service_date_1'', [(''service_date_input'', PlainTextInput (Some date_text))]),
      (''service_summary_1'', [(''service_summary_input'', PlainTextInput (Some summary_text))])]"

definition api_outage_form :: view_values where
  "api_outage_form =
     service_fields ''API'' down ''2024-05-20T10:00'' ''outage'' @
     [(''update_0_date_1'', [(''update_date_input'', PlainTextInput (Some ''2024-05-20T10:00''))]),
      (''update_0_details_1'', [(''update_details_input'', PlainTextInput (Some ''ongoing''))]),
      (''update_0_url_1'', [(''update_url_input'', PlainTextInput None)])]"

text \<open>A form without any update.\<close>

definition no_update_form :: view_values where
  "no_update_form = service_fields ''API'' down ''2024-05-20T10:00'' ''outage''"

text \<open>
  A form whose first update has a valid date and empty details, and whose second update has
  a date in the wrong format and a URL that is not one.
\<close>

definition careless_form :: view_values where
  "careless_form =
     service_fields ''API'' down ''2024-05-20T10:00'' ''outage'' @
     [(''update_0_date_1'', [(''update_date_input'', PlainTextInput (Some ''2024-05-20T10:00''))]),
      (''update_0_details_1'', [(''update_details_input'', PlainTextInput (Some []))]),
      (''update_0_url_1'', [(''update_url_input'', PlainTextInput None)]),
      (''update_1_date_1'', [(''update_date_input'', PlainTextInput (Some ''yesterday''))]),
      (''update_1_details_1'', [(''update_details_input'', PlainTextInput (Some ''fixed''))]),
      (''update_1_url_1'', [(''update_url_input'', PlainTextInput (Some ''not a link''))])]"

text \<open>The state after a load that fetched the given document into a new process.\<close>

definition loaded :: "service list \<Rightarrow> state" where
  "loaded doc = snd (load_status_data (Fetched doc) initial_state)"

definition github_accepts :: environment where
  "github_accepts = \<lparr>github_token = Some ''token'', get_outcome = Status 200, put_outcome = Status 200\<rparr>"

text \<open>
  A form that breaks every rule the handlers check: no name, no summary, a service date in
  the wrong format, a first update in month 13, and a second update with a good date and a
  URL without scheme.
\<close>

definition faulty_form :: view_values where
  "faulty_form =
     service_fields [] down ''20 May'' [] @
     [(''update_0_date_1'', [(''update_date_input'', PlainTextInput (Some ''2024-13-01T10:00''))]),
      (''update_0_details_1'', [(''update_details_input'', PlainTextInput (Some ''started''))]),
      (''update_0_url_1'', [(''update_url_input'', PlainTextInput None)]),
      (''update_1_date_1'', [(''update_date_input'', PlainTextInput (Some ''2024-05-20T10:00''))]),
      (''update_1_details_1'', [(''update_details_input'', PlainTextInput (Some ''fixed''))]),
      (''update_1_url_1'', [(''update_url_input'', PlainTextInput (Some ''example.com''))])]"

definition faulty_errors :: errors where
  "faulty_errors =
     [(''service_date_1'', DateFormatMessage), (''update_0_date_1'', InvalidDateMessage),
      (''update_1_url_1'', InvalidUrlMessage), (''service_summary_1'', SummaryEmptyMessage),
      (''service_name_1'', NameEmptyMessage)]"

text \<open>
  The empty update that \<^verbatim>\<open>handle_add_update\<close> appends, and the working copy of a new
  service after the user has filled in the four service fields of \<open>no_update_form\<close> and
  pressed "Add New Update" once.
\<close>

definition blank :: update_entry where
  "blank = \<lparr>upd_date = [], upd_details = Some [], upd_url = Some []\<rparr>"

definition new_api_outage :: service where
  "new_api_outage =
     \<lparr>status = ''down'', affectedServices = ''API'', summary = ''outage'',
      date = ''2024-05-20T10:00'', updates = [blank]\<rparr>"






definition lowercase_outage :: service where
  "lowercase_outage = api_outage\<lparr>status := ''down''\<rparr>"

definition empty_url_outage :: service where
  "empty_url_outage =
     api_outage\<lparr>updates := [\<lparr>upd_date = ''2024-05-20T10:00'', upd_details = Some ''ongoing'',
                              upd_url = Some []\<rparr>]\<rparr>"


section \<open>The serialisation is injective\<close>

text \<open>
  Every level of the encoding can be read back from the front of a string: if two encodings
  followed by arbitrary rests are equal, the encoded values and the rests are equal.
\<close>

lemma hex_digit_inj:
  assumes "n < 16" "m < 16" "hex_digit n = hex_digit m"
  shows "n = m"
proof -
  have "(of_char (hex_digit n) :: nat) = of_char (hex_digit m)" using assms(3) by simp
  then show ?thesis using assms(1,2)
    by (simp add: hex_digit_def split: if_splits)
qed

lemma hex_pair_inj:
  assumes "hex_digit ((of_char c :: nat) div 16) = hex_digit ((of_char d :: nat) div 16)"
    and "hex_digit ((of_char c :: nat) mod 16) = hex_digit ((of_char d :: nat) mod 16)"
  shows "c = d"
proof -
  have c: "(of_char c :: nat) div 16 < 16" and d: "(of_char d :: nat) div 16 < 16"
    by (simp_all add: less_mult_imp_div_less)
  have "(of_char c :: nat) div 16 = (of_char d :: nat) div 16"
    using hex_digit_inj [OF c d assms(1)] .
  moreover have "(of_char c :: nat) mod 16 = (of_char d :: nat) mod 16"
    using hex_digit_inj [OF _ _ assms(2)] by simp
  ultimately have "(of_char c :: nat) = of_char d"
    by (metis div_mult_mod_eq)
  then show ?thesis by simp
qed

lemma escape_char_prefix_code:
  assumes "escape_char c @ r = escape_char d @ r'"
  shows "c = d \<and> r = r'"
  using assms
  by (auto simp add: escape_char_def dquote_def backslash_def split: if_splits dest: hex_pair_inj)

lemma escape_char_not_quote:
  "\<exists>x xs. escape_char c = x # xs \<and> x \<noteq> dquote"
  by (simp add: escape_char_def dquote_def backslash_def)

lemma escaped_body_unique:
  "concat (map escape_char s) @ dquote # r = concat (map escape_char t) @ dquote # r'
   \<Longrightarrow> s = t \<and> r = r'"
proof (induction s arbitrary: t)
  case Nil
  show ?case
  proof (cases t)
    case Nil
    with Nil.prems show ?thesis by simp
  next
    case (Cons d t')
    obtain x xs where "escape_char d = x # xs" "x \<noteq> dquote"
      using escape_char_not_quote by blast
    with Nil.prems Cons show ?thesis by simp
  qed
next
  case (Cons c s)
  show ?case
  proof (cases t)
    case Nil
    obtain x xs where "escape_char c = x # xs" "x \<noteq> dquote"
      using escape_char_not_quote by blast
    with Cons.prems Nil show ?thesis by simp
  next
    case (Cons d t')
    from Cons.prems Cons
    have "escape_char c @ (concat (map escape_char s) @ dquote # r)
        = escape_char d @ (concat (map escape_char t') @ dquote # r')"
      by simp
    then have "c = d" and "concat (map escape_char s) @ dquote # r
        = concat (map escape_char t') @ dquote # r'"
      using escape_char_prefix_code by blast+
    with Cons.IH Cons show ?thesis by simp
  qed
qed

lemma json_string_unique:
  "json_string s @ r = json_string t @ r' \<Longrightarrow> s = t \<and> r = r'"
  using escaped_body_unique [of s r t r'] by (simp add: json_string_def)

lemma json_string_starts: "\<exists>xs. json_string s = dquote # xs"
  by (simp add: json_string_def)

lemma json_optional_string_unique:
  assumes "json_optional_string v @ r = json_optional_string w @ r'"
  shows "v = w \<and> r = r'"
proof (cases v)
  case None
  show ?thesis
  proof (cases w)
    case None
    with \<open>v = None\<close> assms show ?thesis by (simp add: json_optional_string_def)
  next
    case (Some t)
    with \<open>v = None\<close> assms show ?thesis
      by (simp add: json_optional_string_def json_string_def dquote_def)
  qed
next
  case (Some s)
  show ?thesis
  proof (cases w)
    case None
    with Some assms show ?thesis
      by (simp add: json_optional_string_def json_string_def dquote_def)
  next
    case (Some t)
    with \<open>v = Some s\<close> assms json_string_unique [of s r t r'] show ?thesis
      by (simp add: json_optional_string_def)
  qed
qed

lemma json_items_Cons:
  "json_items f (x # xs) = f x @ (if xs = [] then [] else '', '' @ json_items f xs)"
  by (cases xs) simp_all

lemma json_items_unique:
  assumes inj: "\<And>x y r r'. f x @ r = f y @ r' \<Longrightarrow> x = y \<and> r = r'"
    and start: "\<And>x. \<exists>xs. f x = CHR ''{'' # xs"
  shows "json_items f xs @ CHR '']'' # r = json_items f ys @ CHR '']'' # r'
         \<Longrightarrow> xs = ys \<and> r = r'"
proof (induction xs arbitrary: ys)
  case Nil
  show ?case
  proof (cases ys)
    case Nil
    with Nil.prems show ?thesis by simp
  next
    case (Cons y ys')
    obtain zs where "f y = CHR ''{'' # zs" using start by blast
    with Nil.prems Cons show ?thesis by (simp add: json_items_Cons)
  qed
next
  case (Cons x xs)
  show ?case
  proof (cases ys)
    case Nil
    obtain zs where "f x = CHR ''{'' # zs" using start by blast
    with Cons.prems Nil show ?thesis by (simp add: json_items_Cons)
  next
    case (Cons y ys')
    let ?tx = "(if xs = [] then [] else '', '' @ json_items f xs) @ CHR '']'' # r"
    let ?ty = "(if ys' = [] then [] else '', '' @ json_items f ys') @ CHR '']'' # r'"
    from Cons.prems Cons have "f x @ ?tx = f y @ ?ty"
      by (simp only: json_items_Cons append_assoc)
    from inj [OF this] have xy: "x = y" and tails: "?tx = ?ty" by simp_all
    show ?thesis
    proof (cases "xs = []")
      case True
      with tails have "ys' = []" by (auto split: if_splits)
      with True tails xy Cons show ?thesis by simp
    next
      case False
      with tails have ne: "ys' \<noteq> []" by (auto split: if_splits)
      with False tails have "json_items f xs @ CHR '']'' # r = json_items f ys' @ CHR '']'' # r'"
        by simp
      from Cons.IH [OF this] xy Cons show ?thesis by simp
    qed
  qed
qed

lemma json_list_unique:
  assumes inj: "\<And>x y r r'. f x @ r = f y @ r' \<Longrightarrow> x = y \<and> r = r'"
    and start: "\<And>x. \<exists>xs. f x = CHR ''{'' # xs"
  shows "json_list f xs @ r = json_list f ys @ r' \<Longrightarrow> xs = ys \<and> r = r'"
  using json_items_unique [of f xs r ys r', OF inj start] by (simp add: json_list_def)

lemma url_part_unique:
  assumes "(case a of None \<Rightarrow> [] | Some x \<Rightarrow> '', '' @ json_key ''url'' @ json_string x) @ CHR ''}'' # r
         = (case b of None \<Rightarrow> [] | Some x \<Rightarrow> '', '' @ json_key ''url'' @ json_string x) @ CHR ''}'' # r'"
  shows "a = b \<and> r = r'"
proof (cases a)
  case None
  with assms show ?thesis by (cases b) simp_all
next
  case (Some x)
  show ?thesis
  proof (cases b)
    case None
    with Some assms show ?thesis by simp
  next
    case (Some y)
    with \<open>a = Some x\<close> assms
    have "json_string x @ (CHR ''}'' # r) = json_string y @ (CHR ''}'' # r')" by simp
    from json_string_unique [OF this] Some \<open>a = Some x\<close> show ?thesis by simp
  qed
qed

lemma dumps_update_unique:
  assumes "dumps_update u @ r = dumps_update v @ r'"
  shows "u = v \<and> r = r'"
proof -
  let ?url = "\<lambda>w. (case upd_url w of None \<Rightarrow> []
                    | Some x \<Rightarrow> '', '' @ json_key ''url'' @ json_string x)"
  let ?t2 = "\<lambda>w q. json_optional_string (upd_details w) @ (?url w @ CHR ''}'' # q)"
  let ?t1 = "\<lambda>w q. json_string (upd_date w) @ ('', '' @ json_key ''details'' @ ?t2 w q)"
  from assms have "?t1 u r = ?t1 v r'"
    by (simp add: dumps_update_def)
  from json_string_unique [OF this]
  have d: "upd_date u = upd_date v" and "?t2 u r = ?t2 v r'" by simp_all
  from json_optional_string_unique [OF this(2)]
  have e: "upd_details u = upd_details v" and "?url u @ CHR ''}'' # r = ?url v @ CHR ''}'' # r'"
    by simp_all
  from url_part_unique [OF this(2)] have "upd_url u = upd_url v" and "r = r'" by simp_all
  with d e show ?thesis by simp
qed

lemma dumps_update_starts: "\<exists>xs. dumps_update u = CHR ''{'' # xs"
  by (simp add: dumps_update_def)

lemma dumps_service_unique:
  assumes "dumps_service a @ r = dumps_service b @ r'"
  shows "a = b \<and> r = r'"
proof -
  let ?t5 = "\<lambda>w q. json_list dumps_update (updates w) @ (CHR ''}'' # q)"
  let ?t4 = "\<lambda>w q. json_string (summary w) @ ('', '' @ json_key ''updates'' @ ?t5 w q)"
  let ?t3 = "\<lambda>w q. json_string (status w) @ ('', '' @ json_key ''summary'' @ ?t4 w q)"
  let ?t2 = "\<lambda>w q. json_string (date w) @ ('', '' @ json_key ''status'' @ ?t3 w q)"
  let ?t1 = "\<lambda>w q. json_string (affectedServices w) @ ('', '' @ json_key ''date'' @ ?t2 w q)"
  from assms have "?t1 a r = ?t1 b r'"
    by (simp add: dumps_service_def)
  from json_string_unique [OF this]
  have f1: "affectedServices a = affectedServices b" and "?t2 a r = ?t2 b r'" by simp_all
  from json_string_unique [OF this(2)]
  have f2: "date a = date b" and "?t3 a r = ?t3 b r'" by simp_all
  from json_string_unique [OF this(2)]
  have f3: "status a = status b" and "?t4 a r = ?t4 b r'" by simp_all
  from json_string_unique [OF this(2)]
  have f4: "summary a = summary b" and "?t5 a r = ?t5 b r'" by simp_all
  from json_list_unique [of dumps_update, OF dumps_update_unique dumps_update_starts this(2)]
  have f5: "updates a = updates b" and "r = r'" by simp_all
  with f1 f2 f3 f4 show ?thesis by simp
qed

lemma dumps_service_starts: "\<exists>xs. dumps_service r = CHR ''{'' # xs"
  by (simp add: dumps_service_def)

lemma json_dumps_inj: "json_dumps xs = json_dumps ys \<longleftrightarrow> xs = ys"
proof
  assume "json_dumps xs = json_dumps ys"
  then have "json_list dumps_service xs @ [] = json_list dumps_service ys @ []"
    by (simp add: json_dumps_def)
  from json_list_unique [of dumps_service, OF dumps_service_unique dumps_service_starts this]
  show "xs = ys" by simp
qed simp


section \<open>Detecting changes\<close>

lemma has_changes_iff:
  assumes "global_statuses s = Some a" and "original_statuses s = Some b"
  shows "has_changes s \<longleftrightarrow> heap s a \<noteq> heap s b"
  using assms by (auto simp add: has_changes_def json_dumps_inj)

lemma has_changes_None:
  "global_statuses s = None \<or> original_statuses s = None \<Longrightarrow> \<not> has_changes s"
  by (auto simp add: has_changes_def split: option.splits)

lemma has_changes_lists:
  "has_changes s \<longleftrightarrow> (\<exists>xs ys. canonical s = Some xs \<and> baseline s = Some ys \<and> xs \<noteq> ys)"
proof (cases "global_statuses s")
  case None
  then show ?thesis using has_changes_None [of s] by (simp add: canonical_def)
next
  case (Some a)
  show ?thesis
  proof (cases "original_statuses s")
    case None
    then show ?thesis using has_changes_None [of s] by (simp add: baseline_def)
  next
    case (Some b)
    with \<open>global_statuses s = Some a\<close> has_changes_iff [of s a b] show ?thesis
      by (simp add: canonical_def baseline_def)
  qed
qed

lemma has_changes_flag: "has_changes (s\<lparr>has_unsaved_changes := v\<rparr>) = has_changes s"
  by (simp add: has_changes_lists canonical_def baseline_def)

lemma loaded_fields:
  "heap (loaded doc) = (\<lambda>_. [])(0 := doc, Suc 0 := doc)"
  "global_statuses (loaded doc) = Some 0"
  "original_statuses (loaded doc) = Some (Suc 0)"
  "has_unsaved_changes (loaded doc) = False"
  "working_copies (loaded doc) = Map.empty"
  by (simp_all add: loaded_def load_status_data_def initial_state_def Let_def)

lemma loaded_lists: "canonical (loaded doc) = Some doc" "baseline (loaded doc) = Some doc"
  by (simp_all add: canonical_def baseline_def loaded_fields)

lemma has_changes_loaded: "\<not> has_changes (loaded doc)"
  by (simp add: has_changes_lists loaded_lists)


subsection \<open>Before the first load\<close>

text \<open>
  Claim C10. While \<^verbatim>\<open>global_statuses\<close> or \<^verbatim>\<open>original_statuses\<close> is still \<^verbatim>\<open>None\<close>,
  \<^verbatim>\<open>has_changes\<close> returns \<^verbatim>\<open>False\<close> (it does not fail), and so \<^verbatim>\<open>handle_submit_changes\<close>
  answers that there are no changes, sends no request and leaves the state as it is.
\<close>

theorem has_changes_false_before_load:
  "global_statuses s = None \<or> original_statuses s = None
   \<Longrightarrow> \<not> has_changes s \<and> handle_submit_changes env s = (NoChangesDetected, [], s)"
  using has_changes_None [of s] by (simp add: handle_submit_changes_def)

theorem has_changes_false_before_load_witness:
  "global_statuses initial_state = None \<and> \<not> has_changes initial_state
   \<and> handle_submit_changes github_accepts initial_state = (NoChangesDetected, [], initial_state)"
  using has_changes_false_before_load [of initial_state github_accepts]
  by (simp add: initial_state_def)


subsection \<open>Submitting without changes\<close>

text \<open>
  Claim C9. In every state in which \<^verbatim>\<open>has_changes\<close> is false, \<^verbatim>\<open>handle_submit_changes\<close>
  reports that no changes were detected, sends no request to GitHub and returns the state
  unchanged.
\<close>

theorem submit_without_changes:
  "\<not> has_changes s \<Longrightarrow> handle_submit_changes env s = (NoChangesDetected, [], s)"
  by (simp add: handle_submit_changes_def)

theorem submit_without_changes_witness:
  "\<not> has_changes (loaded [api_outage])
   \<and> handle_submit_changes github_accepts (loaded [api_outage])
       = (NoChangesDetected, [], loaded [api_outage])"
  using submit_without_changes [of "loaded [api_outage]" github_accepts] has_changes_loaded
  by simp


subsection \<open>Loading\<close>

text \<open>
  Claim C8. A successful \<^verbatim>\<open>load_status_data\<close> returns the fetched document, makes it the
  content of both \<^verbatim>\<open>global_statuses\<close> and \<^verbatim>\<open>original_statuses\<close>, which are two different list
  objects (so that deleting from the first leaves the second as fetched), resets the flag
  and leaves \<^verbatim>\<open>has_changes\<close> false. A failed request makes it return an empty list and
  change nothing; it returns a value in either case.
\<close>

theorem load_status_data_outcomes:
  "fst (load_status_data (Fetched doc) s) = doc
   \<and> canonical (snd (load_status_data (Fetched doc) s)) = Some doc
   \<and> baseline (snd (load_status_data (Fetched doc) s)) = Some doc
   \<and> global_statuses (snd (load_status_data (Fetched doc) s))
       \<noteq> original_statuses (snd (load_status_data (Fetched doc) s))
   \<and> baseline (snd (handle_delete_service i (snd (load_status_data (Fetched doc) s)))) = Some doc
   \<and> \<not> has_unsaved_changes (snd (load_status_data (Fetched doc) s))
   \<and> \<not> has_changes (snd (load_status_data (Fetched doc) s))
   \<and> load_status_data RequestException s = ([], s)"
  by (simp add: load_status_data_def Let_def canonical_def baseline_def has_changes_def
        handle_delete_service_def split: sum.splits)


section \<open>Deleting a service\<close>

lemma py_index_valid: "0 \<le> i \<Longrightarrow> i < int (length xs) \<Longrightarrow> py_index xs i = Some (nat i)"
  by (simp add: py_index_def)

lemma py_index_Some_less: "py_index xs i = Some j \<Longrightarrow> j < length xs"
  by (auto simp add: py_index_def Let_def split: if_splits)

lemma py_index_None_iff: "py_index xs i = None \<longleftrightarrow> i < - int (length xs) \<or> int (length xs) \<le> i"
  by (auto simp add: py_index_def Let_def)

lemma pop_length: "j < length xs \<Longrightarrow> length (take j xs @ drop (Suc j) xs) = length xs - 1"
  by simp

lemma pop_before: "k < j \<Longrightarrow> j < length xs \<Longrightarrow> (take j xs @ drop (Suc j) xs) ! k = xs ! k"
  by (simp add: nth_append)

lemma pop_after:
  "j \<le> k \<Longrightarrow> Suc k < length xs \<Longrightarrow> (take j xs @ drop (Suc j) xs) ! k = xs ! Suc k"
  by (simp add: nth_append min_def)

lemma delete_service_no_list:
  "canonical s = None \<Longrightarrow> handle_delete_service i s = (DeleteServiceRaised TypeError, s)"
  by (simp add: handle_delete_service_def canonical_def split: option.splits)

lemma delete_service_unresolved:
  assumes "canonical s = Some xs" and "i < - int (length xs) \<or> int (length xs) \<le> i"
  shows "handle_delete_service i s = (DeleteServiceRaised IndexError, s)"
proof -
  from assms(1) obtain a where a: "global_statuses s = Some a" "heap s a = xs"
    by (auto simp add: canonical_def)
  from assms(2) have "py_index xs i = None" by (simp add: py_index_None_iff)
  with a show ?thesis by (simp add: handle_delete_service_def py_getitem_def)
qed

lemma delete_service_negative:
  assumes "canonical s = Some xs" and "- int (length xs) \<le> i" and "i < 0"
  shows "handle_delete_service i s = (ServiceIndexOutOfRange i (length xs), s)"
proof -
  from assms(1) obtain a where a: "global_statuses s = Some a" "heap s a = xs"
    by (auto simp add: canonical_def)
  from assms(2,3) obtain j where "py_index xs i = Some j"
    using py_index_None_iff [of xs i] by (cases "py_index xs i") auto
  with a assms(3) show ?thesis by (simp add: handle_delete_service_def py_getitem_def)
qed

lemma delete_service_valid:
  assumes "global_statuses s = Some a" and "0 \<le> i" and "i < int (length (heap s a))"
  shows "handle_delete_service i s =
           (ServiceDeleted,
            s\<lparr>heap := (heap s)(a := take (nat i) (heap s a) @ drop (Suc (nat i)) (heap s a)),
              has_unsaved_changes := True,
              working_copies := (working_copies s)(i := None)\<rparr>)"
  using assms py_index_valid [of i "heap s a"]
  by (simp add: handle_delete_service_def py_getitem_def py_pop_def)

text \<open>
  Claim C5. \<^verbatim>\<open>handle_delete_service\<close> fails for every index that is not a position of the
  list behind \<^verbatim>\<open>global_statuses\<close> and changes nothing then: without a list and for an index
  Python cannot resolve the \<^verbatim>\<open>except\<close> branch reports the \<^verbatim>\<open>TypeError\<close> or \<^verbatim>\<open>IndexError\<close>, and
  for a negative index that Python would resolve from the end the handler reports that
  the service index is out of range. For a position \<open>i\<close> of the list it makes the list one
  shorter, keeps the services before \<open>i\<close> in place, moves every later service down by one
  position, and drops the working copy stored under \<open>i\<close>.
\<close>

theorem delete_service_by_index:
  "(canonical s = None \<longrightarrow> handle_delete_service i s = (DeleteServiceRaised TypeError, s))
   \<and> (\<forall>xs. canonical s = Some xs \<longrightarrow>
        (i < - int (length xs) \<or> int (length xs) \<le> i
           \<longrightarrow> handle_delete_service i s = (DeleteServiceRaised IndexError, s))
      \<and> (- int (length xs) \<le> i \<and> i < 0
           \<longrightarrow> handle_delete_service i s = (ServiceIndexOutOfRange i (length xs), s))
      \<and> (0 \<le> i \<and> i < int (length xs)
           \<longrightarrow> fst (handle_delete_service i s) = ServiceDeleted
             \<and> (\<exists>ys. canonical (snd (handle_delete_service i s)) = Some ys
                   \<and> length ys = length xs - 1
                   \<and> (\<forall>k. k < nat i \<longrightarrow> ys ! k = xs ! k)
                   \<and> (\<forall>k. nat i \<le> k \<and> k < length ys \<longrightarrow> ys ! k = xs ! Suc k))
             \<and> working_copies (snd (handle_delete_service i s)) = (working_copies s)(i := None)))"
proof (intro conjI allI impI)
  assume "canonical s = None"
  then show "handle_delete_service i s = (DeleteServiceRaised TypeError, s)"
    by (rule delete_service_no_list)
next
  fix xs assume "canonical s = Some xs" "i < - int (length xs) \<or> int (length xs) \<le> i"
  then show "handle_delete_service i s = (DeleteServiceRaised IndexError, s)"
    by (rule delete_service_unresolved)
next
  fix xs assume "canonical s = Some xs" "- int (length xs) \<le> i \<and> i < 0"
  then show "handle_delete_service i s = (ServiceIndexOutOfRange i (length xs), s)"
    using delete_service_negative by blast
next
  fix xs assume c: "canonical s = Some xs" and v: "0 \<le> i \<and> i < int (length xs)"
  from c obtain a where a: "global_statuses s = Some a" "heap s a = xs"
    by (auto simp add: canonical_def)
  note r = delete_service_valid [of s a i]
  from a v r show "fst (handle_delete_service i s) = ServiceDeleted" by simp
  from a v r
  show "working_copies (snd (handle_delete_service i s)) = (working_copies s)(i := None)"
    by simp
  let ?ys = "take (nat i) xs @ drop (Suc (nat i)) xs"
  from v have j: "nat i < length xs" by linarith
  from a v r have "canonical (snd (handle_delete_service i s)) = Some ?ys"
    by (simp add: canonical_def)
  moreover have "length ?ys = length xs - 1" using j by (rule pop_length)
  moreover have "\<forall>k. k < nat i \<longrightarrow> ?ys ! k = xs ! k" using j pop_before by blast
  moreover have "\<forall>k. nat i \<le> k \<and> k < length ?ys \<longrightarrow> ?ys ! k = xs ! Suc k"
    using j pop_after [of "nat i" _ xs] by auto
  ultimately
  show "\<exists>ys. canonical (snd (handle_delete_service i s)) = Some ys
                   \<and> length ys = length xs - 1
                   \<and> (\<forall>k. k < nat i \<longrightarrow> ys ! k = xs ! k)
                   \<and> (\<forall>k. nat i \<le> k \<and> k < length ys \<longrightarrow> ys ! k = xs ! Suc k)"
    by blast
qed

theorem delete_service_by_index_witness:
  "canonical (loaded [api_outage, disk_full]) = Some [api_outage, disk_full]
   \<and> fst (handle_delete_service 0 (loaded [api_outage, disk_full])) = ServiceDeleted
   \<and> canonical (snd (handle_delete_service 0 (loaded [api_outage, disk_full]))) = Some [disk_full]
   \<and> handle_delete_service 2 (loaded [api_outage, disk_full])
       = (DeleteServiceRaised IndexError, loaded [api_outage, disk_full])
   \<and> handle_delete_service (- 1) (loaded [api_outage, disk_full])
       = (ServiceIndexOutOfRange (- 1) 2, loaded [api_outage, disk_full])
   \<and> canonical initial_state = None
   \<and> handle_delete_service 0 initial_state = (DeleteServiceRaised TypeError, initial_state)"
proof -
  let ?s = "loaded [api_outage, disk_full]"
  have c: "canonical ?s = Some [api_outage, disk_full]" by (rule loaded_lists)
  have n: "canonical initial_state = None" by (simp add: canonical_def initial_state_def)
  from delete_service_by_index [of ?s 0] c
  have "fst (handle_delete_service 0 ?s) = ServiceDeleted"
    and "\<exists>ys. canonical (snd (handle_delete_service 0 ?s)) = Some ys \<and> length ys = 1
           \<and> (\<forall>k. k < length ys \<longrightarrow> ys ! k = [api_outage, disk_full] ! Suc k)"
    by simp_all
  then obtain ys where ys: "canonical (snd (handle_delete_service 0 ?s)) = Some ys"
    "length ys = 1" "ys ! 0 = disk_full" by auto
  then have "ys = [disk_full]" by (cases ys) simp_all
  moreover from delete_service_by_index [of ?s 2] c
  have "handle_delete_service 2 ?s = (DeleteServiceRaised IndexError, ?s)" by simp
  moreover from delete_service_by_index [of ?s "- 1"] c
  have "handle_delete_service (- 1) ?s = (ServiceIndexOutOfRange (- 1) 2, ?s)" by simp
  moreover from delete_service_by_index [of initial_state 0] n
  have "handle_delete_service 0 initial_state = (DeleteServiceRaised TypeError, initial_state)"
    by simp
  ultimately show ?thesis
    using c n ys \<open>fst (handle_delete_service 0 ?s) = ServiceDeleted\<close> by simp
qed


section \<open>Submitting the changes to GitHub\<close>

lemma submit_state:
  "snd (snd (handle_submit_changes env s)) = s
   \<or> snd (snd (handle_submit_changes env s)) = s\<lparr>has_unsaved_changes := False\<rparr>"
  by (simp add: handle_submit_changes_def split: http_outcome.splits)

lemma submit_keeps_has_changes:
  "has_changes (snd (snd (handle_submit_changes env s))) = has_changes s"
  using submit_state [of env s] by (auto simp add: has_changes_flag)

lemma submit_needs_changes:
  "fst (handle_submit_changes env s) = ChangesSubmitted \<Longrightarrow> has_changes s"
  by (cases "has_changes s") (simp_all add: handle_submit_changes_def)

text \<open>
  Whenever GitHub accepts the new file, \<^verbatim>\<open>has_changes\<close> is still true afterwards: the
  handler resets \<^verbatim>\<open>has_unsaved_changes\<close>, which nothing reads, and leaves
  \<^verbatim>\<open>original_statuses\<close> as it was loaded.
\<close>

lemma submitted_still_dirty:
  "fst (handle_submit_changes env s) = ChangesSubmitted
   \<Longrightarrow> has_changes (snd (snd (handle_submit_changes env s)))"
  using submit_needs_changes submit_keeps_has_changes by blast

lemma deleted_only_service:
  "handle_delete_service 0 (loaded [api_outage])
     = (ServiceDeleted, (loaded [api_outage])\<lparr>heap := (heap (loaded [api_outage]))(0 := []),
          has_unsaved_changes := True\<rparr>)"
  by (simp add: handle_delete_service_def loaded_fields
      py_getitem_def py_pop_def py_index_def Let_def)

lemma deleted_only_service_dirty:
  "has_changes (snd (handle_delete_service 0 (loaded [api_outage])))"
  by (simp add: deleted_only_service has_changes_lists canonical_def baseline_def loaded_fields)

text \<open>
  Claim C1 says that \<^verbatim>\<open>has_changes\<close> is false right after a submission that GitHub
  accepted. The code does otherwise. Load the document with the one service \<open>api_outage\<close>,
  delete that service, and submit with GitHub answering 200 to both requests: the
  submission succeeds, the flag \<^verbatim>\<open>has_unsaved_changes\<close> is reset, and \<^verbatim>\<open>has_changes\<close> is still
  true, because \<^verbatim>\<open>original_statuses\<close> still holds the document that was loaded.
\<close>

theorem submit_accepted_still_has_changes:
  "fst (handle_submit_changes github_accepts (snd (handle_delete_service 0 (loaded [api_outage]))))
     = ChangesSubmitted
   \<and> has_changes (snd (snd (handle_submit_changes github_accepts
         (snd (handle_delete_service 0 (loaded [api_outage]))))))
   \<and> \<not> has_unsaved_changes (snd (snd (handle_submit_changes github_accepts
         (snd (handle_delete_service 0 (loaded [api_outage]))))))"
proof -
  let ?s = "snd (handle_delete_service 0 (loaded [api_outage]))"
  have 1: "handle_submit_changes github_accepts ?s
     = (ChangesSubmitted, [GithubGet, GithubPut (canonical ?s)], ?s\<lparr>has_unsaved_changes := False\<rparr>)"
    using deleted_only_service_dirty
    by (simp add: handle_submit_changes_def github_accepts_def truthy_def)
  show ?thesis
    using deleted_only_service_dirty by (simp add: 1 has_changes_flag)
qed


section \<open>Deleting an update from a working copy\<close>

lemma py_index_last: "xs \<noteq> [] \<Longrightarrow> py_index xs (- 1) = Some (length xs - 1)"
  by (cases xs) (simp_all add: py_index_def)

lemma delete_update_from_end:
  assumes "get_working_copy key s = Inr w" and "updates w \<noteq> []"
  shows "handle_delete_update key (- 1) s =
           (ViewUpdated EditServiceModal key (w\<lparr>updates := butlast (updates w)\<rparr>),
            s\<lparr>working_copies := (working_copies s)(key \<mapsto> w\<lparr>updates := butlast (updates w)\<rparr>)\<rparr>)"
  using assms py_index_last [of "updates w"]
  by (simp add: handle_delete_update_def py_pop_def butlast_conv_take)

lemma delete_update_valid:
  assumes "get_working_copy key s = Inr w" and "0 \<le> j" and "j < int (length (updates w))"
  shows "handle_delete_update key j s =
           (ViewUpdated EditServiceModal key
              (w\<lparr>updates := take (nat j) (updates w) @ drop (Suc (nat j)) (updates w)\<rparr>),
            s\<lparr>working_copies := (working_copies s)(key \<mapsto>
                w\<lparr>updates := take (nat j) (updates w) @ drop (Suc (nat j)) (updates w)\<rparr>)\<rparr>)"
  using assms py_index_valid [of j "updates w"]
  by (simp add: handle_delete_update_def py_pop_def)

lemma delete_update_beyond:
  assumes "get_working_copy key s = Inr w" and "int (length (updates w)) \<le> j"
  shows "handle_delete_update key j s = (UpdateNotFound j (length (updates w)), s)"
  using assms by (simp add: handle_delete_update_def)

lemma delete_update_unresolved:
  assumes "get_working_copy key s = Inr w" and "j < - int (length (updates w))"
  shows "handle_delete_update key j s = (WorkingCopyRaised IndexError, s)"
proof -
  from assms(2) have "py_index (updates w) j = None" by (simp add: py_index_None_iff)
  moreover from assms(2) have "j < int (length (updates w))" by linarith
  ultimately show ?thesis using assms(1) by (simp add: handle_delete_update_def py_pop_def)
qed

text \<open>
  The handler tests only \<^verbatim>\<open>update_index < len(working_copy["updates"])\<close>. A negative index
  would pass that test and \<^verbatim>\<open>pop\<close> would count from the end, or raise \<^verbatim>\<open>IndexError\<close> beyond
  the start (\<open>delete_update_from_end\<close>, \<open>delete_update_unresolved\<close>). No negative index
  reaches the handler, though: the index is the second number in the value of a
  "Delete Update" button, and the only place that writes such a value is
  \<^verbatim>\<open>create_service_detail_blocks\<close>, as \<^verbatim>\<open>f"{service_index}:{j}"\<close> with \<open>j\<close> from
  \<^verbatim>\<open>enumerate(service["updates"])\<close>.
\<close>

text \<open>
  Claim C6. For a working copy, stored or made from the service, and every entry index
  \<open>j\<close> from 0 on: if \<open>j\<close> is not a position of the working copy's updates,
  \<^verbatim>\<open>handle_delete_update\<close> reports that the update was not found and changes nothing; if it
  is, the handler stores the working copy with the updates one shorter, the entries before
  \<open>j\<close> in place and every later entry moved down by one position, and redraws the modal
  with it.
\<close>

theorem delete_update_by_index:
  assumes "get_working_copy key s = Inr w" and "0 \<le> j"
  shows "(int (length (updates w)) \<le> j \<longrightarrow>
           handle_delete_update key j s = (UpdateNotFound j (length (updates w)), s))
   \<and> (j < int (length (updates w)) \<longrightarrow>
        (\<exists>us. handle_delete_update key j s
                = (ViewUpdated EditServiceModal key (w\<lparr>updates := us\<rparr>),
                   s\<lparr>working_copies := (working_copies s)(key \<mapsto> w\<lparr>updates := us\<rparr>)\<rparr>)
            \<and> length us = length (updates w) - 1
            \<and> (\<forall>k. k < nat j \<longrightarrow> us ! k = updates w ! k)
            \<and> (\<forall>k. nat j \<le> k \<and> k < length us \<longrightarrow> us ! k = updates w ! Suc k)))"
proof (intro conjI impI)
  assume "int (length (updates w)) \<le> j"
  with assms(1)
  show "handle_delete_update key j s = (UpdateNotFound j (length (updates w)), s)"
    by (rule delete_update_beyond)
next
  assume "j < int (length (updates w))"
  with assms(2) have j: "nat j < length (updates w)" by linarith
  let ?us = "take (nat j) (updates w) @ drop (Suc (nat j)) (updates w)"
  from delete_update_valid [OF assms \<open>j < int (length (updates w))\<close>]
  have "handle_delete_update key j s
          = (ViewUpdated EditServiceModal key (w\<lparr>updates := ?us\<rparr>),
             s\<lparr>working_copies := (working_copies s)(key \<mapsto> w\<lparr>updates := ?us\<rparr>)\<rparr>)" .
  moreover have "length ?us = length (updates w) - 1" using j by (rule pop_length)
  moreover have "\<forall>k. k < nat j \<longrightarrow> ?us ! k = updates w ! k" using j pop_before by blast
  moreover have "\<forall>k. nat j \<le> k \<and> k < length ?us \<longrightarrow> ?us ! k = updates w ! Suc k"
    using j pop_after [of "nat j" _ "updates w"] by auto
  ultimately
  show "\<exists>us. handle_delete_update key j s
                = (ViewUpdated EditServiceModal key (w\<lparr>updates := us\<rparr>),
                   s\<lparr>working_copies := (working_copies s)(key \<mapsto> w\<lparr>updates := us\<rparr>)\<rparr>)
            \<and> length us = length (updates w) - 1
            \<and> (\<forall>k. k < nat j \<longrightarrow> us ! k = updates w ! k)
            \<and> (\<forall>k. nat j \<le> k \<and> k < length us \<longrightarrow> us ! k = updates w ! Suc k)"
    by blast
qed

lemma added_update:
  "apply_edits [AddUpdate 0 None] (loaded [api_outage])
     = (loaded [api_outage])\<lparr>working_copies :=
          [0 \<mapsto> api_outage\<lparr>updates := updates api_outage @ [blank]\<rparr>]\<rparr>"
  by (simp add: apply_edits_def handle_add_update_def get_working_copy_def loaded_fields
      py_getitem_def py_index_def blank_def Let_def)

lemma added_update_working_copy:
  "get_working_copy 0 (apply_edits [AddUpdate 0 None] (loaded [api_outage]))
     = Inr (api_outage\<lparr>updates := updates api_outage @ [blank]\<rparr>)"
  by (simp add: added_update get_working_copy_def)

theorem delete_update_by_index_witness:
  "get_working_copy 0 (apply_edits [AddUpdate 0 None] (loaded [api_outage]))
     = Inr (api_outage\<lparr>updates := updates api_outage @ [blank]\<rparr>)
   \<and> (0 :: int) \<le> 0
   \<and> handle_delete_update 0 0 (apply_edits [AddUpdate 0 None] (loaded [api_outage]))
     = (ViewUpdated EditServiceModal 0 (api_outage\<lparr>updates := [blank]\<rparr>),
        (loaded [api_outage])\<lparr>working_copies := [0 \<mapsto> api_outage\<lparr>updates := [blank]\<rparr>]\<rparr>)
   \<and> (0 :: int) \<le> 2
   \<and> handle_delete_update 0 2 (apply_edits [AddUpdate 0 None] (loaded [api_outage]))
     = (UpdateNotFound 2 2, apply_edits [AddUpdate 0 None] (loaded [api_outage]))"
proof -
  let ?s = "apply_edits [AddUpdate 0 None] (loaded [api_outage])"
  let ?w = "api_outage\<lparr>updates := updates api_outage @ [blank]\<rparr>"
  have n: "length (updates ?w) = 2" "updates ?w ! 1 = blank"
    by (simp_all add: api_outage_def)
  from delete_update_by_index [OF added_update_working_copy, of 0] n
  obtain us where us: "handle_delete_update 0 0 ?s
                = (ViewUpdated EditServiceModal 0 (?w\<lparr>updates := us\<rparr>),
                   ?s\<lparr>working_copies := (working_copies ?s)(0 \<mapsto> ?w\<lparr>updates := us\<rparr>)\<rparr>)"
     "length us = 1" "us ! 0 = blank"
    by auto
  then have "us = [blank]" by (cases us) simp_all
  with us(1) have 1: "handle_delete_update 0 0 ?s
     = (ViewUpdated EditServiceModal 0 (api_outage\<lparr>updates := [blank]\<rparr>),
        (loaded [api_outage])\<lparr>working_copies := [0 \<mapsto> api_outage\<lparr>updates := [blank]\<rparr>]\<rparr>)"
    by (simp add: added_update)
  from delete_update_by_index [OF added_update_working_copy, of 2] n
  have 2: "handle_delete_update 0 2 ?s = (UpdateNotFound 2 2, ?s)" by simp
  from 1 2 added_update_working_copy show ?thesis by simp
qed


section \<open>Submitting a form\<close>

lemma collect_no_update_form:
  "collect_submission no_update_form
     = Inr ([(''service_summary_1'', UpdateRequiredMessage)], api_outage\<lparr>updates := []\<rparr>)"
  by code_simp

text \<open>
  Claim C2. When the validation of a submitted form leaves at least one entry in the
  \<^verbatim>\<open>errors\<close> dict, both submission handlers give exactly these errors to \<^verbatim>\<open>ack\<close> and return
  the state as it was: the list behind \<^verbatim>\<open>global_statuses\<close>, the working copies and the flag
  are untouched.
\<close>

theorem submission_with_errors_changes_nothing:
  "collect_submission (state_values v) = Inr (errs, r) \<Longrightarrow> errs \<noteq> []
   \<Longrightarrow> handle_edit_service_submission v s = (ValidationErrors errs, s)
     \<and> handle_add_service_submission v s = (ValidationErrors errs, s)"
  by (simp add: handle_edit_service_submission_def handle_add_service_submission_def)

theorem submission_with_errors_changes_nothing_witness:
  "collect_submission (state_values \<lparr>private_metadata = 0, state_values = no_update_form\<rparr>)
     = Inr ([(''service_summary_1'', UpdateRequiredMessage)], api_outage\<lparr>updates := []\<rparr>)
   \<and> [(''service_summary_1'', UpdateRequiredMessage)] \<noteq> []
   \<and> handle_edit_service_submission \<lparr>private_metadata = 0, state_values = no_update_form\<rparr>
        (loaded [api_outage])
       = (ValidationErrors [(''service_summary_1'', UpdateRequiredMessage)], loaded [api_outage])
   \<and> handle_add_service_submission \<lparr>private_metadata = 0, state_values = no_update_form\<rparr>
        (loaded [api_outage])
       = (ValidationErrors [(''service_summary_1'', UpdateRequiredMessage)], loaded [api_outage])"
  using submission_with_errors_changes_nothing
    [of "\<lparr>private_metadata = 0, state_values = no_update_form\<rparr>"
        "[(''service_summary_1'', UpdateRequiredMessage)]" "api_outage\<lparr>updates := []\<rparr>"
        "loaded [api_outage]"]
  by (simp add: collect_no_update_form)


section \<open>Saving a submitted service\<close>

lemma edit_submission_saved:
  assumes "collect_submission (state_values v) = Inr ([], r)"
    and "global_statuses s = Some a"
    and "py_index (heap s a) (private_metadata v) = Some j"
  shows "handle_edit_service_submission v s =
           (ServiceSaved,
            s\<lparr>heap := (heap s)(a := (heap s a)[j := r]), has_unsaved_changes := True,
              working_copies := (working_copies s)(private_metadata v := None)\<rparr>)"
  using assms by (simp add: handle_edit_service_submission_def py_setitem_def)

lemma add_submission_saved:
  assumes "collect_submission (state_values v) = Inr ([], r)"
    and "global_statuses s = Some a"
  shows "handle_add_service_submission v s =
           (ServiceSaved,
            s\<lparr>heap := (heap s)(a := heap s a @ [r]), has_unsaved_changes := True,
              working_copies := (working_copies s)(- 1 := None)\<rparr>)"
  using assms by (simp add: handle_add_service_submission_def)

lemma collect_api_outage_form: "collect_submission api_outage_form = Inr ([], api_outage)"
  by code_simp




subsection \<open>The modal that is sent as it was drawn\<close>
































subsection \<open>\<^verbatim>\<open>has_changes\<close> after a saved submission\<close>







lemma api_outage_drawn: "create_service_detail_blocks ''1'' api_outage = api_outage_form"
  by code_simp




lemma saved_over_loaded:
  assumes "collect_submission vals = Inr ([], r)"
  shows "handle_edit_service_submission \<lparr>private_metadata = 0, state_values = vals\<rparr> (loaded [x])
           = (ServiceSaved,
              (loaded [x])\<lparr>heap := (heap (loaded [x]))(0 := [r]), has_unsaved_changes := True\<rparr>)"
proof -
  have "py_index (heap (loaded [x]) 0)
          (private_metadata \<lparr>private_metadata = 0, state_values = vals\<rparr>) = Some 0"
    by (simp add: loaded_fields py_index_def)
  from edit_submission_saved [of "\<lparr>private_metadata = 0, state_values = vals\<rparr>" r "loaded [x]" 0 0,
      OF _ _ this] assms
  show ?thesis by (simp add: loaded_fields)
qed

lemma saved_over_loaded_dirty:
  assumes "collect_submission vals = Inr ([], r)"
  shows "fst (handle_edit_service_submission
            \<lparr>private_metadata = 0, state_values = vals\<rparr> (loaded [x])) = ServiceSaved
       \<and> canonical (snd (handle_edit_service_submission
            \<lparr>private_metadata = 0, state_values = vals\<rparr> (loaded [x]))) = Some [r]
       \<and> (has_changes (snd (handle_edit_service_submission
            \<lparr>private_metadata = 0, state_values = vals\<rparr> (loaded [x]))) \<longleftrightarrow> r \<noteq> x)"
  by (simp add: saved_over_loaded [OF assms] has_changes_lists canonical_def baseline_def
      loaded_fields)


text \<open>
  Two more services that the modal does not hand back as they are, each by the way the form
  is built: a status that is not the text of an option is saved as the text of the option
  the select shows for it, and an update with the empty string as url is saved without url
  (\<^verbatim>\<open>if url_value:\<close>). In both cases the untouched modal is saved and \<^verbatim>\<open>has_changes\<close> is true
  afterwards.
\<close>

lemma collect_lowercase_outage_form:
  "collect_submission (create_service_detail_blocks ''1'' lowercase_outage) = Inr ([], api_outage)"
  by code_simp

lemma lowercase_status_saved_as_option_text:
  "fst (handle_edit_service_submission
        \<lparr>private_metadata = 0, state_values = create_service_detail_blocks ''1'' lowercase_outage\<rparr>
        (loaded [lowercase_outage])) = ServiceSaved
   \<and> has_changes (snd (handle_edit_service_submission
        \<lparr>private_metadata = 0, state_values = create_service_detail_blocks ''1'' lowercase_outage\<rparr>
        (loaded [lowercase_outage])))"
proof -
  have "api_outage \<noteq> lowercase_outage" by code_simp
  with saved_over_loaded_dirty [OF collect_lowercase_outage_form, of lowercase_outage]
  show ?thesis by blast
qed

lemma collect_empty_url_outage_form:
  "collect_submission (create_service_detail_blocks ''1'' empty_url_outage) = Inr ([], api_outage)"
  by code_simp

lemma empty_url_saved_without_url:
  "fst (handle_edit_service_submission
        \<lparr>private_metadata = 0, state_values = create_service_detail_blocks ''1'' empty_url_outage\<rparr>
        (loaded [empty_url_outage])) = ServiceSaved
   \<and> has_changes (snd (handle_edit_service_submission
        \<lparr>private_metadata = 0, state_values = create_service_detail_blocks ''1'' empty_url_outage\<rparr>
        (loaded [empty_url_outage])))"
proof -
  have "api_outage \<noteq> empty_url_outage" by code_simp
  with saved_over_loaded_dirty [OF collect_empty_url_outage_form, of empty_url_outage]
  show ?thesis by blast
qed


subsection \<open>A new service after an update was deleted\<close>

lemma form_values_taken:
  "take_form_values (concat (map snd no_update_form)) empty_service
     = (new_api_outage\<lparr>updates := []\<rparr>, False)"
  by code_simp

lemma new_service_two_updates:
  "apply_edits [AddService, AddUpdate (- 1) (Some no_update_form),
       AddUpdate (- 1) (Some no_update_form)] (loaded [disk_full])
     = (loaded [disk_full])\<lparr>working_copies := [- 1 \<mapsto> new_api_outage\<lparr>updates := [blank, blank]\<rparr>]\<rparr>"
  by (simp add: apply_edits_def handle_add_service_def handle_add_update_def
      new_service_working_copy_def form_values_taken loaded_fields blank_def Let_def)

lemma new_service_delete_update:
  "handle_delete_update (- 1) 1
     ((loaded [disk_full])\<lparr>working_copies := [- 1 \<mapsto> new_api_outage\<lparr>updates := [blank, blank]\<rparr>]\<rparr>)
   = (ViewUpdated EditServiceModal (- 1) new_api_outage,
      (loaded [disk_full])\<lparr>working_copies := [- 1 \<mapsto> new_api_outage]\<rparr>)"
  by (simp add: handle_delete_update_def get_working_copy_def py_pop_def py_index_def
      new_api_outage_def)

text \<open>
  Claim C7 says that a valid submission for the new-service key is appended. The two
  submission handlers do what the claim says when each receives its own modal
  (\<open>edit_submission_saved\<close>, \<open>add_submission_saved\<close>). But \<^verbatim>\<open>handle_delete_update\<close> always
  redraws the modal with the callback id \<^verbatim>\<open>edit_service_modal_...\<close>, also for the key \<open>-1\<close>,
  where \<^verbatim>\<open>handle_add_update\<close> uses \<^verbatim>\<open>add_service_modal_...\<close>. So after "Add service", two
  times "Add New Update" and one "Delete Update", the form of the new service is submitted to
  \<^verbatim>\<open>handle_edit_service_submission\<close> with the index \<open>-1\<close>, and the item assignment
  \<^verbatim>\<open>global_statuses[-1] = updated_service\<close> replaces the last service: the list that held
  \<open>disk_full\<close> holds only the new service afterwards.
\<close>

theorem new_service_after_delete_update_overwrites_last:
  "fst (handle_delete_update (- 1) 1
         (apply_edits [AddService, AddUpdate (- 1) (Some no_update_form),
            AddUpdate (- 1) (Some no_update_form)] (loaded [disk_full])))
     = ViewUpdated EditServiceModal (- 1) new_api_outage
   \<and> fst (handle_edit_service_submission \<lparr>private_metadata = - 1, state_values = api_outage_form\<rparr>
         (apply_edits [AddService, AddUpdate (- 1) (Some no_update_form),
            AddUpdate (- 1) (Some no_update_form), DeleteUpdate (- 1) 1] (loaded [disk_full])))
     = ServiceSaved
   \<and> canonical (snd (handle_edit_service_submission
         \<lparr>private_metadata = - 1, state_values = api_outage_form\<rparr>
         (apply_edits [AddService, AddUpdate (- 1) (Some no_update_form),
            AddUpdate (- 1) (Some no_update_form), DeleteUpdate (- 1) 1] (loaded [disk_full]))))
     = Some [api_outage]"
proof -
  let ?s3 = "apply_edits [AddService, AddUpdate (- 1) (Some no_update_form),
            AddUpdate (- 1) (Some no_update_form)] (loaded [disk_full])"
  let ?s4 = "apply_edits [AddService, AddUpdate (- 1) (Some no_update_form),
            AddUpdate (- 1) (Some no_update_form), DeleteUpdate (- 1) 1] (loaded [disk_full])"
  let ?v = "\<lparr>private_metadata = - 1, state_values = api_outage_form\<rparr>"
  have s4: "?s4 = snd (handle_delete_update (- 1) 1 ?s3)"
    by (simp add: apply_edits_def)
  have d: "handle_delete_update (- 1) 1 ?s3
     = (ViewUpdated EditServiceModal (- 1) new_api_outage,
        (loaded [disk_full])\<lparr>working_copies := [- 1 \<mapsto> new_api_outage]\<rparr>)"
    by (simp only: new_service_two_updates new_service_delete_update)
  have g: "global_statuses ?s4 = Some 0" "heap ?s4 0 = [disk_full]"
    by (simp_all add: s4 d loaded_fields)
  have "py_index (heap ?s4 0) (private_metadata ?v) = Some 0"
    by (simp add: g py_index_def)
  from edit_submission_saved [of ?v api_outage ?s4 0 0, OF _ g(1) this]
  have "handle_edit_service_submission ?v ?s4 =
           (ServiceSaved,
            ?s4\<lparr>heap := (heap ?s4)(0 := [api_outage]), has_unsaved_changes := True,
              working_copies := (working_copies ?s4)(- 1 := None)\<rparr>)"
    by (simp add: collect_api_outage_form g)
  then show ?thesis using d g by (simp add: canonical_def)
qed


section \<open>The loaded document is kept apart\<close>

text \<open>
  The two globals are assigned together by \<^verbatim>\<open>load_status_data\<close>, which gives them two new
  list objects, and \<^verbatim>\<open>global_statuses\<close> alone by \<^verbatim>\<open>show_service_details\<close>, which gives it the
  loaded list or a new empty one; the handlers change the list behind \<^verbatim>\<open>global_statuses\<close>
  only. So in every state the program reaches, a change of the edited list leaves the
  loaded one alone.
\<close>

lemma separate_initial: "separate initial_state"
  by (simp add: separate_def initial_state_def)

lemma separate_load: "separate s \<Longrightarrow> separate (snd (load_status_data outcome s))"
  by (cases outcome) (simp_all add: separate_def load_status_data_def Let_def)

lemma separate_working_copies:
  "separate (s\<lparr>working_copies := w\<rparr>) = separate s"
  by (simp add: separate_def split: option.splits)

lemma separate_show_service_details:
  assumes "separate s"
  shows "separate (snd (show_service_details i outcome s))"
proof -
  let ?s1 = "s\<lparr>working_copies := (working_copies s)(i := None)\<rparr>"
  have 1: "separate ?s1" using assms by (simp add: separate_working_copies)
  show ?thesis
  proof (cases "global_statuses s")
    case (Some a)
    with 1 show ?thesis
      by (simp add: show_service_details_def Let_def split: sum.splits)
  next
    case None
    show ?thesis
    proof (cases outcome)
      case (Fetched doc)
      with None separate_load [OF 1, of outcome] show ?thesis
        by (simp add: show_service_details_def Let_def load_status_data_def split: sum.splits)
    next
      case RequestException
      with None assms show ?thesis
        by (auto simp add: show_service_details_def Let_def separate_def
            split: sum.splits option.splits)
    qed
  qed
qed

lemma separate_handlers:
  assumes "separate s"
  shows "separate (snd (handle_edit_service_submission v s))"
    and "separate (snd (handle_add_service_submission v s))"
    and "separate (snd (handle_delete_service i s))"
    and "separate (snd (handle_add_service s))"
    and "separate (snd (handle_add_update i b s))"
    and "separate (snd (handle_delete_update i j s))"
    and "separate (snd (snd (handle_submit_changes env s)))"
proof -
  show "separate (snd (handle_edit_service_submission v s))"
    using assms
    by (simp add: handle_edit_service_submission_def separate_def Let_def
        split: sum.splits option.splits)
  show "separate (snd (handle_add_service_submission v s))"
    using assms
    by (simp add: handle_add_service_submission_def separate_def split: sum.splits option.splits)
  show "separate (snd (handle_delete_service i s))"
    using assms
    by (simp add: handle_delete_service_def separate_def split: sum.splits option.splits)
  show "separate (snd (handle_add_service s))"
    using assms by (simp add: handle_add_service_def separate_working_copies)
  show "separate (snd (handle_add_update i b s))"
    using assms
    by (simp add: handle_add_update_def Let_def separate_working_copies split: sum.splits)
  show "separate (snd (handle_delete_update i j s))"
    using assms
    by (simp add: handle_delete_update_def separate_working_copies split: sum.splits)
  from submit_state [of env s]
  show "separate (snd (snd (handle_submit_changes env s)))"
  proof
    assume "snd (snd (handle_submit_changes env s)) = s"
    with assms show ?thesis by simp
  next
    assume "snd (snd (handle_submit_changes env s)) = s\<lparr>has_unsaved_changes := False\<rparr>"
    with assms show ?thesis by (simp add: separate_def split: option.splits)
  qed
qed


section \<open>What the validation reports\<close>

lemma reported_update: "reported (AList.update k v errs) b \<longleftrightarrow> b = k \<or> reported errs b"
  by (auto simp add: reported_def AList.dom_update)

lemma validate_url_empty: "validate_url [] = None"
  by (simp add: validate_url_def)

lemma process_update_keeps:
  assumes "process_update vals m idx acc = Inr acc'" and "reported (fst acc) b"
  shows "reported (fst acc') b"
  using assms
  by (auto simp add: process_update_def reported_update
      split: option.splits sum.splits if_splits)

lemma process_updates_keeps:
  "process_updates vals m idxs acc = Inr acc' \<Longrightarrow> reported (fst acc) b \<Longrightarrow> reported (fst acc') b"
proof (induction idxs arbitrary: acc)
  case Nil
  then show ?case by simp
next
  case (Cons idx rest)
  from Cons.prems(1) obtain acc1 where
    1: "process_update vals m idx acc = Inr acc1" and
    2: "process_updates vals m rest acc1 = Inr acc'"
    by (auto split: sum.splits)
  from process_update_keeps [OF 1 Cons.prems(2)] Cons.IH [OF 2] show ?case by simp
qed

lemma process_updates_reports:
  assumes step: "\<And>acc acc'. process_update vals m idx acc = Inr acc' \<Longrightarrow> reported (fst acc') b"
  shows "process_updates vals m idxs acc = Inr acc' \<Longrightarrow> idx \<in> set idxs \<Longrightarrow> reported (fst acc') b"
proof (induction idxs arbitrary: acc)
  case Nil
  then show ?case by simp
next
  case (Cons i rest)
  from Cons.prems(1) obtain acc1 where
    1: "process_update vals m i acc = Inr acc1" and
    2: "process_updates vals m rest acc1 = Inr acc'"
    by (auto split: sum.splits)
  show ?case
  proof (cases "i = idx")
    case True
    with 1 step have "reported (fst acc1) b" by simp
    with 2 show ?thesis by (rule process_updates_keeps)
  next
    case False
    with Cons.prems(2) have "idx \<in> set rest" by simp
    with Cons.IH [OF 2] show ?thesis by simp
  qed
qed

lemma process_update_reports_date:
  assumes "process_update vals m idx acc = Inr acc'"
    and "map_of (update_blocks m) idx = Some ub"
    and "map_of (update_details_blocks m) idx = Some db"
    and "lookup_value vals ub ''update_date_input'' = Inr (Some d)"
    and "validate_date_format d \<noteq> None"
  shows "reported (fst acc') ub"
  using assms
  by (auto simp add: process_update_def reported_update split: sum.splits)

lemma process_update_reports_url:
  assumes "process_update vals m idx acc = Inr acc'"
    and "map_of (update_blocks m) idx = Some ub"
    and "map_of (update_details_blocks m) idx = Some db"
    and "lookup_value vals ub ''update_date_input'' = Inr (Some d)"
    and "validate_date_format d = None"
    and "map_of (update_url_blocks m) idx = Some urlb"
    and "lookup_value vals urlb ''update_url_input'' = Inr (Some u)"
    and "validate_url u \<noteq> None"
  shows "reported (fst acc') urlb"
proof -
  from assms(8) have "u \<noteq> []" using validate_url_empty by auto
  then have "truthy (Some u)" "str_of (Some u) = u" by (simp_all add: truthy_def str_of_def)
  with assms show ?thesis
    by (auto simp add: process_update_def reported_update split: sum.splits)
qed

lemma collect_submission_Inr:
  assumes "collect_submission vals = Inr (errs, r)"
  shows "\<exists>service_name d service_summary acc.
    lookup_value vals (name_block_of vals) ''service_name_input'' = Inr service_name
    \<and> lookup_value vals (date_block_of vals) ''service_date_input'' = Inr (Some d)
    \<and> lookup_value vals (summary_block_of vals) ''service_summary_input'' = Inr service_summary
    \<and> process_updates vals (find_update_blocks vals)
         (sort (map fst (update_blocks (find_update_blocks vals))))
         (case validate_date_format d of
            Some error_msg \<Rightarrow> AList.update (date_block_of vals) error_msg []
          | None \<Rightarrow> [], []) = Inr acc
    \<and> errs = basic_validations (name_block_of vals) (summary_block_of vals)
               service_name service_summary acc
    \<and> updates r = snd acc"
proof -
  from assms obtain service_name service_date service_summary acc where
    1: "lookup_value vals (name_block_of vals) ''service_name_input'' = Inr service_name"
    and 2: "lookup_value vals (date_block_of vals) ''service_date_input'' = Inr service_date"
    and 3: "lookup_value vals (summary_block_of vals) ''service_summary_input'' = Inr service_summary"
    and 4: "service_date \<noteq> None"
    and 5: "process_updates vals (find_update_blocks vals)
         (sort (map fst (update_blocks (find_update_blocks vals))))
         (case validate_date_format (the service_date) of
            Some error_msg \<Rightarrow> AList.update (date_block_of vals) error_msg []
          | None \<Rightarrow> [], []) = Inr acc"
    and 6: "errs = basic_validations (name_block_of vals) (summary_block_of vals)
               service_name service_summary acc"
    and 7: "updates r = snd acc"
    unfolding collect_submission_def Let_def
    by (simp split: if_splits sum.splits option.split_asm) force+
  from 4 obtain d where "service_date = Some d" by auto
  with 1 2 3 5 6 7 show ?thesis by (intro exI [of _ service_name] exI [of _ d]
      exI [of _ service_summary] exI [of _ acc]) simp
qed

lemma basic_validations_keeps:
  "reported (fst acc) b \<Longrightarrow> reported (basic_validations nb sb n su acc) b"
  by (simp add: basic_validations_def reported_update Let_def)

lemma basic_validations_name:
  "\<not> truthy n \<Longrightarrow> reported (basic_validations nb sb n su acc) nb"
  by (simp add: basic_validations_def reported_update Let_def)

lemma basic_validations_summary:
  "\<not> truthy su \<Longrightarrow> reported (basic_validations nb sb n su acc) sb"
  by (simp add: basic_validations_def reported_update Let_def)

lemma basic_validations_updates:
  "snd acc = [] \<Longrightarrow> reported (basic_validations nb sb n su acc) sb"
  by (simp add: basic_validations_def reported_update Let_def)

lemma in_sorted_keys: "map_of al k = Some v \<Longrightarrow> k \<in> set (sort (map fst al))"
  by (auto dest: map_of_SomeD intro: rev_image_eqI)

lemma process_updates_no_blocks:
  "process_updates vals m (sort (map fst ([] :: (string \<times> string) list))) acc = Inr acc"
  by simp

text \<open>
  Claim C3, as amended. When the form can be read (no input that must be a string is
  \<^verbatim>\<open>None\<close>), the \<^verbatim>\<open>errors\<close> dict has an entry under the block of the service date if that date
  is not valid, under the name block if the name is empty, under the summary block if the
  summary is empty or if no update is left to store (in particular if the form has none),
  and, for every update index that has a date block and a details block, under its date
  block if that date is not valid and under its URL block if the date is valid and the URL
  is given and not valid. All of these are collected in one pass. Nothing is said about
  the details of an update, which the handlers do not check.
\<close>

theorem validation_reports_checked_fields:
  assumes "collect_submission vals = Inr (errs, r)"
  shows "(\<forall>d. lookup_value vals (date_block_of vals) ''service_date_input'' = Inr (Some d)
            \<and> validate_date_format d \<noteq> None
          \<longrightarrow> reported errs (date_block_of vals))
   \<and> (\<forall>v. lookup_value vals (name_block_of vals) ''service_name_input'' = Inr v \<and> \<not> truthy v
          \<longrightarrow> reported errs (name_block_of vals))
   \<and> (\<forall>v. lookup_value vals (summary_block_of vals) ''service_summary_input'' = Inr v \<and> \<not> truthy v
          \<longrightarrow> reported errs (summary_block_of vals))
   \<and> (update_blocks (find_update_blocks vals) = [] \<or> updates r = []
          \<longrightarrow> reported errs (summary_block_of vals))
   \<and> (\<forall>idx ub db d.
          map_of (update_blocks (find_update_blocks vals)) idx = Some ub
          \<and> map_of (update_details_blocks (find_update_blocks vals)) idx = Some db
          \<and> lookup_value vals ub ''update_date_input'' = Inr (Some d)
        \<longrightarrow> (validate_date_format d \<noteq> None \<longrightarrow> reported errs ub)
          \<and> (\<forall>urlb u.
                validate_date_format d = None
                \<and> map_of (update_url_blocks (find_update_blocks vals)) idx = Some urlb
                \<and> lookup_value vals urlb ''update_url_input'' = Inr (Some u)
                \<and> validate_url u \<noteq> None
              \<longrightarrow> reported errs urlb))"
proof -
  let ?m = "find_update_blocks vals"
  from collect_submission_Inr [OF assms]
  obtain service_name d0 service_summary acc where
    n: "lookup_value vals (name_block_of vals) ''service_name_input'' = Inr service_name"
    and d: "lookup_value vals (date_block_of vals) ''service_date_input'' = Inr (Some d0)"
    and su: "lookup_value vals (summary_block_of vals) ''service_summary_input'' = Inr service_summary"
    and loop: "process_updates vals ?m (sort (map fst (update_blocks ?m)))
         (case validate_date_format d0 of
            Some error_msg \<Rightarrow> AList.update (date_block_of vals) error_msg []
          | None \<Rightarrow> [], []) = Inr acc"
    and errs: "errs = basic_validations (name_block_of vals) (summary_block_of vals)
               service_name service_summary acc"
    and ups: "updates r = snd acc"
    by blast
  have kept: "reported errs b" if "reported (fst acc) b" for b
    using that errs basic_validations_keeps by simp
  have 1: "reported errs (date_block_of vals)" if "validate_date_format d0 \<noteq> None"
  proof -
    from that have "reported (fst (case validate_date_format d0 of
            Some error_msg \<Rightarrow> AList.update (date_block_of vals) error_msg []
          | None \<Rightarrow> [], [] :: update_entry list)) (date_block_of vals)"
      by (auto simp add: reported_def)
    from process_updates_keeps [OF loop this] show ?thesis by (rule kept)
  qed
  have 2: "reported errs (name_block_of vals)" if "\<not> truthy service_name"
    using that errs basic_validations_name by simp
  have 3: "reported errs (summary_block_of vals)" if "\<not> truthy service_summary"
    using that errs basic_validations_summary by simp
  have 4: "reported errs (summary_block_of vals)"
    if "update_blocks ?m = [] \<or> updates r = []"
  proof -
    from that loop ups have "snd acc = []" by auto
    then show ?thesis using errs basic_validations_updates by simp
  qed
  have 5: "reported errs ub"
    if "map_of (update_blocks ?m) idx = Some ub" "map_of (update_details_blocks ?m) idx = Some db"
      "lookup_value vals ub ''update_date_input'' = Inr (Some d)" "validate_date_format d \<noteq> None"
    for idx ub db d
  proof -
    from that(1) have "idx \<in> set (sort (map fst (update_blocks ?m)))" by (rule in_sorted_keys)
    from process_updates_reports [of vals ?m idx ub, OF _ loop this]
      process_update_reports_date [OF _ that]
    have "reported (fst acc) ub" by blast
    then show ?thesis by (rule kept)
  qed
  have 6: "reported errs urlb"
    if "map_of (update_blocks ?m) idx = Some ub" "map_of (update_details_blocks ?m) idx = Some db"
      "lookup_value vals ub ''update_date_input'' = Inr (Some d)" "validate_date_format d = None"
      "map_of (update_url_blocks ?m) idx = Some urlb"
      "lookup_value vals urlb ''update_url_input'' = Inr (Some u)" "validate_url u \<noteq> None"
    for idx ub db d urlb u
  proof -
    from that(1) have "idx \<in> set (sort (map fst (update_blocks ?m)))" by (rule in_sorted_keys)
    from process_updates_reports [of vals ?m idx urlb, OF _ loop this]
      process_update_reports_url [OF _ that]
    have "reported (fst acc) urlb" by blast
    then show ?thesis by (rule kept)
  qed
  show ?thesis
  proof (intro conjI allI impI)
    fix d assume "lookup_value vals (date_block_of vals) ''service_date_input'' = Inr (Some d)
            \<and> validate_date_format d \<noteq> None"
    with d 1 show "reported errs (date_block_of vals)" by simp
  next
    fix v assume "lookup_value vals (name_block_of vals) ''service_name_input'' = Inr v \<and> \<not> truthy v"
    with n 2 show "reported errs (name_block_of vals)" by simp
  next
    fix v assume "lookup_value vals (summary_block_of vals) ''service_summary_input'' = Inr v \<and> \<not> truthy v"
    with su 3 show "reported errs (summary_block_of vals)" by simp
  next
    assume "update_blocks ?m = [] \<or> updates r = []"
    then show "reported errs (summary_block_of vals)" by (rule 4)
  next
    fix idx ub db d
    assume a: "map_of (update_blocks ?m) idx = Some ub
          \<and> map_of (update_details_blocks ?m) idx = Some db
          \<and> lookup_value vals ub ''update_date_input'' = Inr (Some d)"
    { assume "validate_date_format d \<noteq> None"
      with a 5 show "reported errs ub" by blast }
    fix urlb u
    assume "validate_date_format d = None
                \<and> map_of (update_url_blocks ?m) idx = Some urlb
                \<and> lookup_value vals urlb ''update_url_input'' = Inr (Some u)
                \<and> validate_url u \<noteq> None"
    with a 6 show "reported errs urlb" by blast
  qed
qed

lemma collect_careless_form:
  "collect_submission careless_form
     = Inr ([(''update_1_date_1'', DateFormatMessage)],
            api_outage\<lparr>updates := [\<lparr>upd_date = ''2024-05-20T10:00'', upd_details = Some [],
                                    upd_url = None\<rparr>]\<rparr>)"
  by code_simp

text \<open>
  Claim C3 as stated fails on \<open>careless_form\<close>: its first update has empty details and its
  second update has a URL that is not one, and the \<^verbatim>\<open>errors\<close> dict that comes back has an entry
  for neither, only for the date of the second update.
\<close>

theorem careless_form_violations_unreported:
  "collect_submission careless_form
     = Inr ([(''update_1_date_1'', DateFormatMessage)],
            api_outage\<lparr>updates := [\<lparr>upd_date = ''2024-05-20T10:00'', upd_details = Some [],
                                    upd_url = None\<rparr>]\<rparr>)
   \<and> lookup_value careless_form ''update_0_details_1'' ''update_details_input'' = Inr (Some [])
   \<and> \<not> reported [(''update_1_date_1'', DateFormatMessage)] ''update_0_details_1''
   \<and> lookup_value careless_form ''update_1_url_1'' ''update_url_input'' = Inr (Some ''not a link'')
   \<and> validate_url ''not a link'' = Some InvalidUrlMessage
   \<and> \<not> reported [(''update_1_date_1'', DateFormatMessage)] ''update_1_url_1''"
proof -
  have "lookup_value careless_form ''update_0_details_1'' ''update_details_input'' = Inr (Some [])"
    by code_simp
  moreover
  have "lookup_value careless_form ''update_1_url_1'' ''update_url_input'' = Inr (Some ''not a link'')"
    by code_simp
  moreover have "validate_url ''not a link'' = Some InvalidUrlMessage"
    by code_simp
  ultimately show ?thesis
    using collect_careless_form by (simp add: reported_def)
qed

lemma collect_faulty_form:
  "collect_submission faulty_form
     = Inr (faulty_errors,
            \<lparr>status = ''Down'', affectedServices = [], summary = [], date = ''20 May'', updates = []\<rparr>)"
  by code_simp

lemma faulty_form_blocks:
  "date_block_of faulty_form = ''service_date_1''"
  "name_block_of faulty_form = ''service_name_1''"
  "summary_block_of faulty_form = ''service_summary_1''"
  "map_of (update_blocks (find_update_blocks faulty_form)) ''0'' = Some ''update_0_date_1''"
  "map_of (update_details_blocks (find_update_blocks faulty_form)) ''0'' = Some ''update_0_details_1''"
  "map_of (update_blocks (find_update_blocks faulty_form)) ''1'' = Some ''update_1_date_1''"
  "map_of (update_details_blocks (find_update_blocks faulty_form)) ''1'' = Some ''update_1_details_1''"
  "map_of (update_url_blocks (find_update_blocks faulty_form)) ''1'' = Some ''update_1_url_1''"
  by code_simp+

lemma faulty_form_values:
  "lookup_value faulty_form ''service_date_1'' ''service_date_input'' = Inr (Some ''20 May'')"
  "lookup_value faulty_form ''service_name_1'' ''service_name_input'' = Inr (Some [])"
  "lookup_value faulty_form ''service_summary_1'' ''service_summary_input'' = Inr (Some [])"
  "lookup_value faulty_form ''update_0_date_1'' ''update_date_input'' = Inr (Some ''2024-13-01T10:00'')"
  "lookup_value faulty_form ''update_1_date_1'' ''update_date_input'' = Inr (Some ''2024-05-20T10:00'')"
  "lookup_value faulty_form ''update_1_url_1'' ''update_url_input'' = Inr (Some ''example.com'')"
  by code_simp+

lemma faulty_form_checks:
  "validate_date_format ''20 May'' = Some DateFormatMessage"
  "validate_date_format ''2024-13-01T10:00'' = Some InvalidDateMessage"
  "validate_date_format ''2024-05-20T10:00'' = None"
  "validate_url ''example.com'' = Some InvalidUrlMessage"
  "\<not> truthy (Some [])"
  by code_simp+

theorem validation_reports_checked_fields_witness:
  "collect_submission faulty_form
     = Inr (faulty_errors,
            \<lparr>status = ''Down'', affectedServices = [], summary = [], date = ''20 May'', updates = []\<rparr>)
   \<and> reported faulty_errors ''service_date_1''
   \<and> reported faulty_errors ''service_name_1''
   \<and> reported faulty_errors ''service_summary_1''
   \<and> reported faulty_errors ''update_0_date_1''
   \<and> reported faulty_errors ''update_1_url_1''"
proof -
  note t = validation_reports_checked_fields [OF collect_faulty_form]
  from t faulty_form_values(1) faulty_form_checks(1)
  have 1: "reported faulty_errors ''service_date_1''"
    by (simp add: faulty_form_blocks)
  from t faulty_form_values(2) faulty_form_checks(5)
  have 2: "reported faulty_errors ''service_name_1''"
    by (simp add: faulty_form_blocks)
  from t faulty_form_values(3) faulty_form_checks(5)
  have 3: "reported faulty_errors ''service_summary_1''"
    by (simp add: faulty_form_blocks)
  from t have u: "\<And>idx ub db d.
          map_of (update_blocks (find_update_blocks faulty_form)) idx = Some ub
          \<and> map_of (update_details_blocks (find_update_blocks faulty_form)) idx = Some db
          \<and> lookup_value faulty_form ub ''update_date_input'' = Inr (Some d)
        \<Longrightarrow> (validate_date_format d \<noteq> None \<longrightarrow> reported faulty_errors ub)
          \<and> (\<forall>urlb u.
                validate_date_format d = None
                \<and> map_of (update_url_blocks (find_update_blocks faulty_form)) idx = Some urlb
                \<and> lookup_value faulty_form urlb ''update_url_input'' = Inr (Some u)
                \<and> validate_url u \<noteq> None
              \<longrightarrow> reported faulty_errors urlb)"
    by blast
  from u [of "''0''" "''update_0_date_1''" "''update_0_details_1''" "''2024-13-01T10:00''"]
  have 4: "reported faulty_errors ''update_0_date_1''"
    by (simp add: faulty_form_blocks faulty_form_values faulty_form_checks)
  from u [of "''1''" "''update_1_date_1''" "''update_1_details_1''" "''2024-05-20T10:00''"]
  have "\<forall>urlb u.
                map_of (update_url_blocks (find_update_blocks faulty_form)) ''1'' = Some urlb
                \<and> lookup_value faulty_form urlb ''update_url_input'' = Inr (Some u)
                \<and> validate_url u \<noteq> None
              \<longrightarrow> reported faulty_errors urlb"
    by (simp add: faulty_form_blocks faulty_form_values faulty_form_checks)
  then have 5: "reported faulty_errors ''update_1_url_1''"
    using faulty_form_blocks(8) faulty_form_values(6) faulty_form_checks(4) by blast
  from collect_faulty_form 1 2 3 4 5 show ?thesis by simp
qed


end
